theory Spec2Isabelle
  imports Main "HOL-Library.Word"
begin

chapter \<open>The program\<close>

section \<open>JavaScript strings\<close>

text \<open>
  A JavaScript string is a sequence of UTF-16 code units; \<open>length\<close>, \<open>substring\<close>,
  \<open>lastIndexOf\<close> and \<open>startsWith\<close> all count code units. A character outside the
  Basic Multilingual Plane (an emoji, say) is a surrogate pair: a high surrogate
  (D800..DBFF) followed by a low surrogate (DC00..DFFF).
  ASCII literals of the source are written \<open>js ''...''\<close>; literals with other
  characters are given by their code units.
\<close>

type_synonym jsstring = "16 word list"

definition js :: "string \<Rightarrow> jsstring" where
  "js s = map of_char s"

definition is_high_surrogate :: "16 word \<Rightarrow> bool" where
  "is_high_surrogate u \<longleftrightarrow> 0xD800 \<le> u \<and> u \<le> 0xDBFF"

definition is_low_surrogate :: "16 word \<Rightarrow> bool" where
  "is_low_surrogate u \<longleftrightarrow> 0xDC00 \<le> u \<and> u \<le> 0xDFFF"

text \<open>
  A string is well formed when every surrogate is half of a pair
  (\<open>String.prototype.isWellFormed\<close>). A cut between the two halves of a pair leaves
  a string that is not well formed.
\<close>

fun well_formed :: "jsstring \<Rightarrow> bool" where
  "well_formed [] = True"
| "well_formed [u] = (\<not> is_high_surrogate u \<and> \<not> is_low_surrogate u)"
| "well_formed (u # v # us) =
     (if is_high_surrogate u then is_low_surrogate v \<and> well_formed us
      else \<not> is_low_surrogate u \<and> well_formed (v # us))"

text \<open>
  \<open>s.substring(a, b)\<close>: both indices are clamped to \<open>0..length\<close> and swapped when
  \<open>a > b\<close>. \<open>s.substring(a)\<close> runs to the end of the string.
\<close>

definition substring :: "jsstring \<Rightarrow> int \<Rightarrow> int \<Rightarrow> jsstring" where
  "substring s a b =
     (let n = int (length s);
          a' = max 0 (min a n);
          b' = max 0 (min b n);
          lo = min a' b';
          hi = max a' b'
      in take (nat (hi - lo)) (drop (nat lo) s))"

definition substring_from :: "jsstring \<Rightarrow> int \<Rightarrow> jsstring" where
  "substring_from s a = substring s a (int (length s))"

text \<open>
  \<open>s.lastIndexOf(c, fromIndex)\<close> for a one-unit search string: the greatest index
  \<open>k \<le> fromIndex\<close> (clamped to \<open>0..length - 1\<close>) with \<open>s[k] = c\<close>, or \<open>-1\<close>.
\<close>

fun scan_back :: "jsstring \<Rightarrow> 16 word \<Rightarrow> nat \<Rightarrow> int" where
  "scan_back s c 0 = (if 0 < length s \<and> s ! 0 = c then 0 else -1)"
| "scan_back s c (Suc k) =
     (if Suc k < length s \<and> s ! Suc k = c then int (Suc k) else scan_back s c k)"

definition lastIndexOf :: "jsstring \<Rightarrow> 16 word \<Rightarrow> int \<Rightarrow> int" where
  "lastIndexOf s c fromIndex =
     scan_back s c (nat (min (max fromIndex 0) (int (length s) - 1)))"

definition newline :: "16 word" where
  "newline = 0x0A"

text \<open>
  White space as \<open>trim\<close>, \<open>trimStart\<close> and the regular expression class \<open>\s\<close> see
  it: the ECMAScript WhiteSpace and LineTerminator code points.
\<close>

definition js_whitespace :: "16 word \<Rightarrow> bool" where
  "js_whitespace u \<longleftrightarrow>
     u \<in> {0x09, 0x0A, 0x0B, 0x0C, 0x0D, 0x20, 0xA0, 0x1680, 0x2028, 0x2029,
          0x202F, 0x205F, 0x3000, 0xFEFF}
     \<or> (0x2000 \<le> u \<and> u \<le> 0x200A)"

definition trimStart :: "jsstring \<Rightarrow> jsstring" where
  "trimStart s = dropWhile js_whitespace s"

definition trim :: "jsstring \<Rightarrow> jsstring" where
  "trim s = rev (dropWhile js_whitespace (rev (dropWhile js_whitespace s)))"

text \<open>
  \<open>s.startsWith(p)\<close>, and \<open>t.includes(q)\<close>: \<open>t\<close> contains \<open>q\<close> as a literal
  substring.
\<close>

definition startsWith :: "jsstring \<Rightarrow> jsstring \<Rightarrow> bool" where
  "startsWith s p \<longleftrightarrow> take (length p) s = p"

fun js_includes :: "jsstring \<Rightarrow> jsstring \<Rightarrow> bool" where
  "js_includes [] q = (q = [])"
| "js_includes (c # cs) q = (startsWith (c # cs) q \<or> js_includes cs q)"

section \<open>Outbound chunking (index.js)\<close>

text \<open>
  \<open>splitMessage(text, maxLen)\<close>. The \<open>while\<close> loop of the source need not end (with
  \<open>maxLen \<le> 0\<close> a chunk can be empty and \<open>remaining\<close> stays as it is), so the loop is
  a partial function: \<open>None\<close> is a run that never returns. The test
  \<open>splitIdx < maxLen * 0.5\<close> is \<open>2 * splitIdx < maxLen\<close> on integers.
\<close>

partial_function (option) split_loop ::
  "int \<Rightarrow> jsstring \<Rightarrow> jsstring list \<Rightarrow> jsstring list option" where
  "split_loop maxLen remaining chunks =
     (if 0 < length remaining then
        (if int (length remaining) \<le> maxLen then Some (chunks @ [remaining])
         else
           (let idx = lastIndexOf remaining newline maxLen;
                splitIdx = (if 2 * idx < maxLen then maxLen else idx)
            in split_loop maxLen
                 (trimStart (substring_from remaining splitIdx))
                 (chunks @ [substring remaining 0 splitIdx])))
      else Some chunks)"

definition splitMessage :: "jsstring \<Rightarrow> int \<Rightarrow> jsstring list option" where
  "splitMessage text maxLen =
     (if int (length text) \<le> maxLen then Some [text] else split_loop maxLen text [])"

section \<open>Truncation of Claude's output (claude-executor.js, step 6 of execute)\<close>

text \<open>
  The suffix is the source's literal: two newlines, \<open>... (\<close>, eight CJK characters
  ("response too long, truncated") and \<open>)\<close>.
\<close>

definition truncation_suffix :: jsstring where
  "truncation_suffix =
     [0xA, 0xA, 0x2E, 0x2E, 0x2E, 0x20, 0x28, 0x54CD, 0x5E94, 0x8FC7, 0x957F,
      0xFF0C, 0x5DF2, 0x622A, 0x65AD, 0x29]"

definition maxLen_response :: int where
  "maxLen_response = 4000"

definition truncate_response :: "jsstring \<Rightarrow> jsstring" where
  "truncate_response response =
     (if maxLen_response < int (length response)
      then substring response 0 maxLen_response @ truncation_suffix
      else response)"

section \<open>Values of the run time\<close>

text \<open>
  An exception of the source is a value: every \<open>throw\<close>, rejected promise and failed
  statement of the store is an \<open>Inl\<close> of the model. The store refuses a row that breaks
  a \<open>CHECK\<close>, a \<open>FOREIGN KEY\<close> or a \<open>PRIMARY KEY\<close> of the schema.
\<close>

datatype constraint = CheckFailed | ForeignKeyFailed | UniqueFailed

datatype exn =
    TypeError
  | SqliteError constraint
  | ProcessError jsstring
  | FsError
  | RegExpError

text \<open>
  Truthiness of a string that may be \<open>undefined\<close> or \<open>null\<close>: the empty string is
  falsy. \<open>or_default a d\<close> is the source's \<open>a || d\<close>; \<open>or_int\<close> is the same for a
  number, where \<open>0\<close> is falsy.
\<close>

definition truthy :: "jsstring option \<Rightarrow> bool" where
  "truthy a = (case a of None \<Rightarrow> False | Some s \<Rightarrow> s \<noteq> [])"

definition or_default :: "jsstring option \<Rightarrow> jsstring \<Rightarrow> jsstring" where
  "or_default a d = (case a of None \<Rightarrow> d | Some s \<Rightarrow> if s = [] then d else s)"

definition or_int :: "int option \<Rightarrow> int \<Rightarrow> int" where
  "or_int a d = (case a of None \<Rightarrow> d | Some n \<Rightarrow> if n = 0 then d else n)"

definition nullish_bool :: "bool option \<Rightarrow> bool \<Rightarrow> bool" where
  "nullish_bool a d = (case a of None \<Rightarrow> d | Some b \<Rightarrow> b)"

section \<open>The metadata store (database.js)\<close>

text \<open>
  Each table is the list of its rows in insertion order. A column that may hold
  \<open>NULL\<close> is an \<open>option\<close>; a statement parameter the caller leaves \<open>undefined\<close> is
  stored as \<open>NULL\<close>. \<open>CURRENT_TIMESTAMP\<close> is an argument of every operation that
  writes one.
\<close>

record friend =
  wxid :: jsstring
  nickname :: "jsstring option"
  remark_name :: "jsstring option"
  permission :: jsstring
  added_at :: jsstring
  added_by :: "jsstring option"
  friend_notes :: "jsstring option"

record session =
  session_id :: jsstring
  session_wxid :: jsstring
  claude_session :: "jsstring option"
  created_at :: jsstring
  last_active :: jsstring
  message_count :: int

record audit_entry =
  audit_id :: nat
  audit_wxid :: jsstring
  audit_nickname :: jsstring
  direction :: jsstring
  message :: jsstring
  audit_claude_session :: "jsstring option"
  timestamp :: jsstring

text \<open>
  A rate-limit row is keyed by \<open>(wxid, window_start)\<close>. The source writes
  \<open>window_start\<close> as the ISO string of the current minute
  (\<open>YYYY-MM-DDTHH:MM:00.000Z\<close>); the model holds the number of that minute since the
  epoch, \<open>Date.now()\<close> divided by 60000. ISO strings of one width are ordered as
  the minutes are.
\<close>

record rate_row =
  rate_wxid :: jsstring
  window_start :: int
  request_count :: int

record database =
  friends :: "friend list"
  sessions :: "session list"
  audit_log :: "audit_entry list"
  rate_limits :: "rate_row list"

subsection \<open>Friends\<close>

definition valid_permission :: "jsstring \<Rightarrow> bool" where
  "valid_permission p \<longleftrightarrow>
     p \<in> set [js ''admin'', js ''trusted'', js ''normal'', js ''blocked'']"

definition coalesce :: "'a option \<Rightarrow> 'a option \<Rightarrow> 'a option" where
  "coalesce a b = (case a of None \<Rightarrow> b | Some _ \<Rightarrow> a)"

definition coalesce_text :: "jsstring option \<Rightarrow> jsstring \<Rightarrow> jsstring" where
  "coalesce_text a b = (case a of None \<Rightarrow> b | Some v \<Rightarrow> v)"

definition friendsDB_get :: "database \<Rightarrow> jsstring \<Rightarrow> friend option" where
  "friendsDB_get db w = find (\<lambda>f. wxid f = w) (friends db)"

text \<open>The second argument of \<open>friendsDB.upsert\<close>; a field left out is \<open>None\<close>.\<close>

record friend_fields =
  new_nickname :: "jsstring option"
  new_remark_name :: "jsstring option"
  new_permission :: "jsstring option"
  new_added_by :: "jsstring option"
  new_notes :: "jsstring option"

text \<open>
  \<open>friendsDB.upsert\<close>. The statement is run with \<open>permission || 'normal'\<close> as its
  fourth parameter, so \<open>excluded.permission\<close> is never \<open>NULL\<close>. The \<open>CHECK\<close> on
  \<open>permission\<close> holds for the inserted and for the updated row. \<open>added_by\<close> is not
  in the \<open>SET\<close> list.
\<close>

definition friendsDB_upsert ::
  "jsstring \<Rightarrow> database \<Rightarrow> jsstring \<Rightarrow> friend_fields \<Rightarrow> exn + database" where
  "friendsDB_upsert now db w given =
     (let excluded_permission = or_default (new_permission given) (js ''normal'')
      in if \<not> valid_permission excluded_permission then Inl (SqliteError CheckFailed)
         else
           (case friendsDB_get db w of
              None \<Rightarrow>
                Inr (db\<lparr>friends := friends db @
                  [\<lparr>wxid = w,
                    nickname = new_nickname given,
                    remark_name = new_remark_name given,
                    permission = excluded_permission,
                    added_at = now,
                    added_by = new_added_by given,
                    friend_notes = new_notes given\<rparr>]\<rparr>)
            | Some _ \<Rightarrow>
                Inr (db\<lparr>friends := map
                  (\<lambda>f. if wxid f = w
                       then f\<lparr>nickname := coalesce (new_nickname given) (nickname f),
                              remark_name := coalesce (new_remark_name given) (remark_name f),
                              permission := coalesce_text (Some excluded_permission) (permission f),
                              friend_notes := coalesce (new_notes given) (friend_notes f)\<rparr>
                       else f)
                  (friends db)\<rparr>)))"

definition friendsDB_getPermission :: "database \<Rightarrow> jsstring \<Rightarrow> jsstring option" where
  "friendsDB_getPermission db w =
     (case friendsDB_get db w of
        None \<Rightarrow> None
      | Some row \<Rightarrow> if permission row = [] then None else Some (permission row))"

definition friendsDB_setPermission ::
  "database \<Rightarrow> jsstring \<Rightarrow> jsstring \<Rightarrow> exn + database" where
  "friendsDB_setPermission db w p =
     (if friendsDB_get db w \<noteq> None \<and> \<not> valid_permission p
      then Inl (SqliteError CheckFailed)
      else Inr (db\<lparr>friends :=
             map (\<lambda>f. if wxid f = w then f\<lparr>permission := p\<rparr> else f) (friends db)\<rparr>))"

text \<open>
  Text order of the store (\<open>ORDER BY\<close> on a text column): lexicographic. A sort
  keeps rows with equal keys in insertion order.
\<close>

fun text_le :: "jsstring \<Rightarrow> jsstring \<Rightarrow> bool" where
  "text_le [] t = True"
| "text_le (x # xs) [] = False"
| "text_le (x # xs) (y # ys) = (x < y \<or> (x = y \<and> text_le xs ys))"

fun insert_desc :: "('a \<Rightarrow> jsstring) \<Rightarrow> 'a \<Rightarrow> 'a list \<Rightarrow> 'a list" where
  "insert_desc key x [] = [x]"
| "insert_desc key x (y # ys) =
     (if text_le (key y) (key x) then x # y # ys else y # insert_desc key x ys)"

definition order_by_desc :: "('a \<Rightarrow> jsstring) \<Rightarrow> 'a list \<Rightarrow> 'a list" where
  "order_by_desc key rows = foldr (insert_desc key) rows []"

definition friendsDB_listAll :: "database \<Rightarrow> friend list" where
  "friendsDB_listAll db = order_by_desc added_at (friends db)"

text \<open>
  The \<open>LIKE\<close> operator of the store, with no \<open>ESCAPE\<close> clause: \<open>%\<close> in the pattern
  stands for any run of characters, \<open>_\<close> for any one character, and every other
  character matches itself, ASCII letters without regard to case. \<open>NULL LIKE p\<close>
  is not true.
\<close>

definition percent :: "16 word" where
  "percent = 0x25"

definition underscore :: "16 word" where
  "underscore = 0x5F"

definition ascii_lower :: "16 word \<Rightarrow> 16 word" where
  "ascii_lower u = (if 0x41 \<le> u \<and> u \<le> 0x5A then u + 0x20 else u)"

fun like :: "jsstring \<Rightarrow> jsstring \<Rightarrow> bool" where
  "like [] t = (t = [])"
| "like (p # ps) [] = (p = percent \<and> like ps [])"
| "like (p # ps) (c # cs) =
     (if p = percent then like ps (c # cs) \<or> like (p # ps) cs
      else (p = underscore \<or> ascii_lower p = ascii_lower c) \<and> like ps cs)"

definition like_column :: "jsstring option \<Rightarrow> jsstring \<Rightarrow> bool" where
  "like_column col pat = (case col of None \<Rightarrow> False | Some t \<Rightarrow> like pat t)"

definition friendsDB_findByNickname :: "database \<Rightarrow> jsstring \<Rightarrow> friend list" where
  "friendsDB_findByNickname db q =
     (let pat = [percent] @ q @ [percent]
      in filter (\<lambda>f. like_column (nickname f) pat \<or> like_column (remark_name f) pat)
           (friends db))"

subsection \<open>Rate limits\<close>

text \<open>
  \<open>rateLimitDB.checkAndIncrement\<close> at time \<open>now\<close> (milliseconds since the epoch).
  \<open>minuteKey\<close> is the current minute, \<open>dayWindow\<close> the current date; a row is of
  today or later when its minute lies in a day \<open>\<ge>\<close> the current one, which is what
  \<open>window_start >= dayWindow\<close> says of the ISO strings. The first test is the
  source's \<open>minuteRow && minuteRow.request_count >= maxPerMinute\<close>, false when
  there is no row. The result is the source's \<open>{allowed, reason}\<close>: \<open>Inl reason\<close>
  is a denial with its reason ("too many requests, try again later" for the minute,
  "today's requests are used up" for the day).
\<close>

definition reason_minute :: jsstring where
  "reason_minute =
     [0x8BF7, 0x6C42, 0x8FC7, 0x4E8E, 0x9891, 0x7E41, 0xFF0C, 0x8BF7, 0x7A0D, 0x540E,
      0x518D, 0x8BD5]"

definition reason_day :: jsstring where
  "reason_day = [0x4ECA, 0x65E5, 0x8BF7, 0x6C42, 0x6B21, 0x6570, 0x5DF2, 0x7528, 0x5B8C]"

definition minuteRow :: "database \<Rightarrow> jsstring \<Rightarrow> int \<Rightarrow> rate_row option" where
  "minuteRow db w minuteKey =
     find (\<lambda>r. rate_wxid r = w \<and> window_start r = minuteKey) (rate_limits db)"

definition dayCount :: "database \<Rightarrow> jsstring \<Rightarrow> int \<Rightarrow> int" where
  "dayCount db w dayWindow =
     sum_list (map request_count
       (filter (\<lambda>r. rate_wxid r = w \<and> dayWindow \<le> window_start r div 1440) (rate_limits db)))"

definition rate_upsert :: "database \<Rightarrow> jsstring \<Rightarrow> int \<Rightarrow> database" where
  "rate_upsert db w minuteKey =
     (case minuteRow db w minuteKey of
        None \<Rightarrow>
          db\<lparr>rate_limits := rate_limits db @
            [\<lparr>rate_wxid = w, window_start = minuteKey, request_count = 1\<rparr>]\<rparr>
      | Some _ \<Rightarrow>
          db\<lparr>rate_limits := map
            (\<lambda>r. if rate_wxid r = w \<and> window_start r = minuteKey
                 then r\<lparr>request_count := request_count r + 1\<rparr> else r)
            (rate_limits db)\<rparr>)"

definition rateLimitDB_checkAndIncrement ::
  "int \<Rightarrow> database \<Rightarrow> jsstring \<Rightarrow> int \<Rightarrow> int \<Rightarrow> (jsstring + unit) \<times> database" where
  "rateLimitDB_checkAndIncrement now db w maxPerMinute maxPerDay =
     (let minuteKey = now div 60000;
          dayWindow = now div 86400000
      in if (case minuteRow db w minuteKey of
               None \<Rightarrow> False
             | Some row \<Rightarrow> maxPerMinute \<le> request_count row)
         then (Inl reason_minute, db)
         else if maxPerDay \<le> dayCount db w dayWindow
         then (Inl reason_day, db)
         else (Inr (), rate_upsert db w minuteKey))"

subsection \<open>Sessions\<close>

text \<open>
  \<open>getActive\<close> is \<open>ORDER BY last_active DESC LIMIT 1\<close>: the row of the user with
  the greatest \<open>last_active\<close>, the earliest inserted among equals. \<open>create\<close> obeys
  the primary key on \<open>id\<close> and the foreign key from \<open>wxid\<close> to the friends table
  (\<open>foreign_keys = ON\<close>).
\<close>

fun latest_active :: "session list \<Rightarrow> session option" where
  "latest_active [] = None"
| "latest_active (s # ss) =
     (case latest_active ss of
        None \<Rightarrow> Some s
      | Some t \<Rightarrow> if text_le (last_active t) (last_active s) then Some s else Some t)"

definition sessionsDB_getActive :: "database \<Rightarrow> jsstring \<Rightarrow> session option" where
  "sessionsDB_getActive db w =
     latest_active (filter (\<lambda>s. session_wxid s = w) (sessions db))"

definition sessionsDB_create ::
  "jsstring \<Rightarrow> database \<Rightarrow> jsstring \<Rightarrow> jsstring \<Rightarrow> jsstring option \<Rightarrow> exn + database" where
  "sessionsDB_create now db sid w claudeSession =
     (if sid \<in> set (map session_id (sessions db)) then Inl (SqliteError UniqueFailed)
      else if friendsDB_get db w = None then Inl (SqliteError ForeignKeyFailed)
      else Inr (db\<lparr>sessions := sessions db @
             [\<lparr>session_id = sid,
               session_wxid = w,
               claude_session = claudeSession,
               created_at = now,
               last_active = now,
               message_count = 0\<rparr>]\<rparr>))"

definition sessionsDB_touch :: "jsstring \<Rightarrow> database \<Rightarrow> jsstring \<Rightarrow> database" where
  "sessionsDB_touch now db sid =
     db\<lparr>sessions := map
       (\<lambda>s. if session_id s = sid
            then s\<lparr>last_active := now, message_count := message_count s + 1\<rparr>
            else s)
       (sessions db)\<rparr>"

definition sessionsDB_setClaudeSession ::
  "database \<Rightarrow> jsstring \<Rightarrow> jsstring \<Rightarrow> database" where
  "sessionsDB_setClaudeSession db sid claudeSession =
     db\<lparr>sessions := map
       (\<lambda>s. if session_id s = sid then s\<lparr>claude_session := Some claudeSession\<rparr> else s)
       (sessions db)\<rparr>"

definition sessionsDB_clearUser :: "database \<Rightarrow> jsstring \<Rightarrow> database" where
  "sessionsDB_clearUser db w =
     db\<lparr>sessions := filter (\<lambda>s. session_wxid s \<noteq> w) (sessions db)\<rparr>"

subsection \<open>Audit log\<close>

text \<open>
  \<open>auditDB.log\<close> appends a row; its id is one more than the greatest id so far
  (\<open>AUTOINCREMENT\<close>, and no statement of the program deletes from this table). The
  callers pass no \<open>claudeSession\<close>, so the column is \<open>NULL\<close>.
\<close>

definition auditDB_log ::
  "jsstring \<Rightarrow> database \<Rightarrow> jsstring \<Rightarrow> jsstring \<Rightarrow> jsstring \<Rightarrow> jsstring \<Rightarrow> exn + database" where
  "auditDB_log now db w nick dir msg =
     (if dir \<in> set [js ''in'', js ''out'']
      then Inr (db\<lparr>audit_log := audit_log db @
             [\<lparr>audit_id = Suc (fold max (map audit_id (audit_log db)) 0),
               audit_wxid = w,
               audit_nickname = nick,
               direction = dir,
               message = msg,
               audit_claude_session = None,
               timestamp = now\<rparr>]\<rparr>)
      else Inl (SqliteError CheckFailed))"

definition auditDB_getByUser :: "database \<Rightarrow> jsstring \<Rightarrow> nat \<Rightarrow> audit_entry list" where
  "auditDB_getByUser db w limit =
     take limit (order_by_desc timestamp (filter (\<lambda>a. audit_wxid a = w) (audit_log db)))"

definition auditDB_getRecent :: "database \<Rightarrow> nat \<Rightarrow> audit_entry list" where
  "auditDB_getRecent db limit = take limit (order_by_desc timestamp (audit_log db))"

section \<open>Configuration (config.js)\<close>

text \<open>
  \<open>yaml_config\<close> is what \<open>parse(raw)\<close> yields: every key present or absent, its
  value of the type the key's default has. \<open>loadConfig\<close> fills in the defaults with
  \<open>||\<close> (an empty string and \<open>0\<close> count as absent) and, for the three booleans,
  with \<open>??\<close>.
\<close>

record yaml_config =
  yaml_admin_wxid :: "jsstring option"
  yaml_cli_path :: "jsstring option"
  yaml_timeout :: "int option"
  yaml_image :: "jsstring option"
  yaml_container_prefix :: "jsstring option"
  yaml_data_dir :: "jsstring option"
  yaml_memory :: "jsstring option"
  yaml_admin_memory :: "jsstring option"
  yaml_cpus :: "int option"
  yaml_admin_cpus :: "int option"
  yaml_pids :: "int option"
  yaml_tmp_size :: "jsstring option"
  yaml_network_admin :: "jsstring option"
  yaml_network_trusted :: "jsstring option"
  yaml_network_normal :: "jsstring option"
  yaml_notify_unauthorized :: "bool option"
  yaml_unauthorized_message :: "jsstring option"
  yaml_default_level :: "jsstring option"
  yaml_expire_minutes :: "int option"
  yaml_max_history :: "int option"
  yaml_max_per_minute :: "int option"
  yaml_max_per_day :: "int option"
  yaml_blocked_patterns :: "jsstring list option"
  yaml_trusted_file_access :: "bool option"
  yaml_log_level :: "jsstring option"
  yaml_log_file :: "jsstring option"
  yaml_log_message_content :: "bool option"

record config =
  admin_wxid :: jsstring
  cli_path :: jsstring
  claude_timeout :: int
  docker_image :: jsstring
  container_prefix :: jsstring
  data_dir :: jsstring
  limits_memory :: jsstring
  limits_admin_memory :: jsstring
  limits_cpus :: int
  limits_admin_cpus :: int
  limits_pids :: int
  limits_tmp_size :: jsstring
  network_admin :: jsstring
  network_trusted :: jsstring
  network_normal :: jsstring
  notify_unauthorized :: bool
  unauthorized_message :: jsstring
  default_level :: jsstring
  expire_minutes :: int
  max_history :: int
  max_per_minute :: int
  max_per_day :: int
  blocked_patterns :: "jsstring list"
  trusted_file_access :: bool
  log_level :: jsstring
  log_file :: jsstring
  log_message_content :: bool

text \<open>The default denial: "Sorry, you are not yet authorised to use this service."\<close>

definition default_unauthorized_message :: jsstring where
  "default_unauthorized_message =
     [0x62B1, 0x6B49, 0xFF0C, 0x4F60, 0x8FD8, 0x6CA1, 0x6709, 0x88AB, 0x6388, 0x6743,
      0x4F7F, 0x7528, 0x6B64, 0x670D, 0x52A1, 0x3002]"

definition loadConfig :: "yaml_config \<Rightarrow> config" where
  "loadConfig y =
     \<lparr>admin_wxid = or_default (yaml_admin_wxid y) [],
      cli_path = or_default (yaml_cli_path y) (js ''claude''),
      claude_timeout = or_int (yaml_timeout y) 120,
      docker_image = or_default (yaml_image y) (js ''claude-sandbox:latest''),
      container_prefix = or_default (yaml_container_prefix y) (js ''claude-friend-''),
      data_dir = or_default (yaml_data_dir y) (js ''~/claude-bridge-data''),
      limits_memory = or_default (yaml_memory y) (js ''512m''),
      limits_admin_memory = or_default (yaml_admin_memory y) (js ''2g''),
      limits_cpus = or_int (yaml_cpus y) 1,
      limits_admin_cpus = or_int (yaml_admin_cpus y) 2,
      limits_pids = or_int (yaml_pids y) 100,
      limits_tmp_size = or_default (yaml_tmp_size y) (js ''100m''),
      network_admin = or_default (yaml_network_admin y) (js ''bridge''),
      network_trusted = or_default (yaml_network_trusted y) (js ''claude-limited''),
      network_normal = or_default (yaml_network_normal y) (js ''none''),
      notify_unauthorized = nullish_bool (yaml_notify_unauthorized y) True,
      unauthorized_message =
        or_default (yaml_unauthorized_message y) default_unauthorized_message,
      default_level = or_default (yaml_default_level y) (js ''normal''),
      expire_minutes = or_int (yaml_expire_minutes y) 60,
      max_history = or_int (yaml_max_history y) 50,
      max_per_minute = or_int (yaml_max_per_minute y) 10,
      max_per_day = or_int (yaml_max_per_day y) 200,
      blocked_patterns = (case yaml_blocked_patterns y of None \<Rightarrow> [] | Some ps \<Rightarrow> ps),
      trusted_file_access = nullish_bool (yaml_trusted_file_access y) True,
      log_level = or_default (yaml_log_level y) (js ''info''),
      log_file = or_default (yaml_log_file y) (js ''logs/bridge.log''),
      log_message_content = nullish_bool (yaml_log_message_content y) True\<rparr>"

text \<open>
  A \<open>config.yaml\<close> whose mapping has none of the keys \<open>loadConfig\<close> reads: the
  default configuration.
\<close>

definition empty_yaml :: yaml_config where
  "empty_yaml =
     \<lparr>yaml_admin_wxid = None, yaml_cli_path = None, yaml_timeout = None,
      yaml_image = None, yaml_container_prefix = None, yaml_data_dir = None,
      yaml_memory = None, yaml_admin_memory = None, yaml_cpus = None,
      yaml_admin_cpus = None, yaml_pids = None, yaml_tmp_size = None,
      yaml_network_admin = None, yaml_network_trusted = None, yaml_network_normal = None,
      yaml_notify_unauthorized = None, yaml_unauthorized_message = None,
      yaml_default_level = None, yaml_expire_minutes = None, yaml_max_history = None,
      yaml_max_per_minute = None, yaml_max_per_day = None, yaml_blocked_patterns = None,
      yaml_trusted_file_access = None, yaml_log_level = None, yaml_log_file = None,
      yaml_log_message_content = None\<rparr>"

section \<open>The host and the built-ins of the run time\<close>

text \<open>
  What the program reads from outside itself is a parameter of the model. The host
  (the container engine, the file system, the clock) has a state of type \<open>'w\<close> that
  the program cannot see; each call answers and moves it on.
  \<^item> \<open>date_now\<close> is \<open>Date.now()\<close>, \<open>current_timestamp\<close> the store's
    \<open>CURRENT_TIMESTAMP\<close>.
  \<^item> \<open>date_getTime s\<close> is \<open>new Date(s).getTime()\<close>; \<open>None\<close> is \<open>NaN\<close>, the time
    value of an invalid date.
  \<^item> \<open>regexp_test p m\<close> is \<open>new RegExp(p, 'i').test(m)\<close>; \<open>None\<close> is the
    \<open>SyntaxError\<close> of a pattern that does not compile.
  \<^item> \<open>session_match s\<close> is the first group of
    \<open>s.match(/session[:\s]+([a-f0-9-]+)/i)\<close>.
  \<^item> \<open>execFile_docker\<close> is \<open>execFileAsync('docker', args)\<close>: the captured stdout,
    or \<open>Inl\<close> the message of the rejection. \<open>spawn_docker\<close> is
    \<open>spawn('docker', args)\<close> raced against the timer of \<open>execClaude\<close>.
    \<open>mkdirSync\<close> answers \<open>False\<close> when it throws.

  The state of the running program is the store, the executor's in-flight map (a
  set of wxids, each mapped to \<open>true\<close>), the host, and the list of the processes and
  directories the program asked the host for, in order.

  The program is a set of \<open>async\<close> functions on one thread. A task runs alone up to
  an \<open>await\<close> of a pending promise; while the promise of a host process is pending,
  the other tasks of the program (the handlers of other messages) run on the same
  store and the same in-flight map. \<open>meanwhile\<close> is what they do to the state in
  that time.
\<close>

datatype host_call =
    ExecFile "jsstring list"
  | Spawn "jsstring list" int
  | Mkdir jsstring

record 'w state =
  store :: database
  activeTasks :: "jsstring set"
  host :: 'w
  trace :: "host_call list"

datatype spawn_result =
    Close "int option" jsstring jsstring
  | TimerFired
  | ErrorEvent jsstring
  | SpawnThrew

record container_stats =
  stats_cpu :: jsstring
  stats_mem :: jsstring
  stats_pids :: jsstring

record 'w runtime =
  date_now :: "'w \<Rightarrow> int"
  current_timestamp :: "'w \<Rightarrow> jsstring"
  date_getTime :: "jsstring \<Rightarrow> int option"
  uuidv4 :: "'w \<Rightarrow> jsstring \<times> 'w"
  regexp_test :: "jsstring \<Rightarrow> jsstring \<Rightarrow> bool option"
  session_match :: "jsstring \<Rightarrow> jsstring option"
  toLowerCase :: "jsstring \<Rightarrow> jsstring"
  process_env :: "jsstring \<Rightarrow> jsstring option"
  path_join :: "jsstring \<Rightarrow> jsstring \<Rightarrow> jsstring"
  json_parse_stats :: "jsstring \<Rightarrow> container_stats option"
  execFile_docker :: "'w \<Rightarrow> jsstring list \<Rightarrow> (jsstring + jsstring) \<times> 'w"
  spawn_docker :: "'w \<Rightarrow> jsstring list \<Rightarrow> int \<Rightarrow> spawn_result \<times> 'w"
  mkdirSync :: "'w \<Rightarrow> jsstring \<Rightarrow> bool \<times> 'w"
  meanwhile :: "'w state \<Rightarrow> 'w state"

section \<open>Permissions and registration (message-router.js)\<close>

text \<open>
  \<open>getEffectivePermission\<close>: \<open>dbPerm || config.permissions.default_level\<close>. The
  result is a string; the empty string is the falsy "no permission".
\<close>

definition getEffectivePermission :: "config \<Rightarrow> database \<Rightarrow> jsstring \<Rightarrow> jsstring" where
  "getEffectivePermission cfg db w =
     (if w = admin_wxid cfg then js ''admin''
      else or_default (friendsDB_getPermission db w) (default_level cfg))"

definition ensureFriendRegistered ::
  "config \<Rightarrow> jsstring \<Rightarrow> database \<Rightarrow> jsstring \<Rightarrow> jsstring \<Rightarrow> jsstring \<Rightarrow> exn + database" where
  "ensureFriendRegistered cfg now db w nick remarkName =
     (case friendsDB_get db w of
        None \<Rightarrow>
          friendsDB_upsert now db w
            \<lparr>new_nickname = Some nick,
             new_remark_name = Some remarkName,
             new_permission =
               Some (if w = admin_wxid cfg then js ''admin'' else default_level cfg),
             new_added_by = None,
             new_notes = None\<rparr>
      | Some existing \<Rightarrow>
          if \<not> (nickname existing = Some nick \<and> remark_name existing = Some remarkName)
          then friendsDB_upsert now db w
                 \<lparr>new_nickname = Some nick,
                  new_remark_name = Some remarkName,
                  new_permission = None,
                  new_added_by = None,
                  new_notes = None\<rparr>
          else Inr db)"

text \<open>
  \<open>securityCheck\<close>: \<open>Inr None\<close> is \<open>{safe: true}\<close>, \<open>Inr (Some reason)\<close> a hit. The
  reason reads "the message contains an operation that is not allowed".
\<close>

definition reason_blocked_pattern :: jsstring where
  "reason_blocked_pattern =
     [0x6D88, 0x606F, 0x5305, 0x542B, 0x4E0D, 0x5141, 0x8BB8, 0x7684, 0x64CD, 0x4F5C]"

fun test_patterns ::
  "(jsstring \<Rightarrow> jsstring \<Rightarrow> bool option) \<Rightarrow> jsstring list \<Rightarrow> jsstring \<Rightarrow> exn + jsstring option" where
  "test_patterns test [] msg = Inr None"
| "test_patterns test (p # ps) msg =
     (case test p msg of
        None \<Rightarrow> Inl RegExpError
      | Some True \<Rightarrow> Inr (Some reason_blocked_pattern)
      | Some False \<Rightarrow> test_patterns test ps msg)"

definition securityCheck ::
  "'w runtime \<Rightarrow> config \<Rightarrow> jsstring \<Rightarrow> jsstring \<Rightarrow> exn + jsstring option" where
  "securityCheck rt cfg msg perm =
     (if perm = js ''admin'' then Inr None
      else test_patterns (regexp_test rt) (blocked_patterns cfg) msg)"

section \<open>State and effects\<close>

text \<open>
  An action runs on a state and ends with a value or an exception, and a new state.
\<close>

type_synonym ('w, 'a) action = "'w state \<Rightarrow> (exn + 'a) \<times> 'w state"

definition return :: "'a \<Rightarrow> ('w, 'a) action" where
  "return a s = (Inr a, s)"

definition throw :: "exn \<Rightarrow> ('w, 'a) action" where
  "throw e s = (Inl e, s)"

definition andThen :: "('w, 'a) action \<Rightarrow> ('a \<Rightarrow> ('w, 'b) action) \<Rightarrow> ('w, 'b) action" where
  "andThen m f s = (case m s of (Inl e, s') \<Rightarrow> (Inl e, s') | (Inr a, s') \<Rightarrow> f a s')"

text \<open>\<open>try { m } catch { h }\<close>: the handler runs on the state the exception left.\<close>

definition tryCatch :: "('w, 'a) action \<Rightarrow> (exn \<Rightarrow> ('w, 'a) action) \<Rightarrow> ('w, 'a) action" where
  "tryCatch m h s = (case m s of (Inl e, s') \<Rightarrow> h e s' | (Inr a, s') \<Rightarrow> (Inr a, s'))"

text \<open>A statement of the store that cannot fail, and one that can.\<close>

definition modify_store :: "(database \<Rightarrow> database) \<Rightarrow> ('w, unit) action" where
  "modify_store f s = (Inr (), s\<lparr>store := f (store s)\<rparr>)"

definition run_store :: "(database \<Rightarrow> exn + database) \<Rightarrow> ('w, unit) action" where
  "run_store f s =
     (case f (store s) of Inl e \<Rightarrow> (Inl e, s) | Inr db \<Rightarrow> (Inr (), s\<lparr>store := db\<rparr>))"

text \<open>
  \<open>await execFileAsync('docker', args)\<close>: the process is started, the other tasks
  run while it is pending, and the task goes on with what the process printed or
  with its failure. \<open>mkdirSync\<close> is synchronous.
\<close>

definition execFileAsync :: "'w runtime \<Rightarrow> jsstring list \<Rightarrow> ('w, jsstring) action" where
  "execFileAsync rt args s =
     (let s1 = meanwhile rt (s\<lparr>trace := trace s @ [ExecFile args]\<rparr>);
          (r, h) = execFile_docker rt (host s1) args;
          s' = s1\<lparr>host := h\<rparr>
      in case r of
           Inl msg \<Rightarrow> (Inl (ProcessError msg), s')
         | Inr stdout \<Rightarrow> (Inr stdout, s'))"

definition mkdir :: "'w runtime \<Rightarrow> jsstring \<Rightarrow> ('w, unit) action" where
  "mkdir rt path s =
     (let (ok, h) = mkdirSync rt (host s) path;
          s' = s\<lparr>host := h, trace := trace s @ [Mkdir path]\<rparr>
      in if ok then (Inr (), s') else (Inl FsError, s'))"

section \<open>The container manager (docker-manager.js)\<close>

text \<open>\<open>String(n)\<close> for an integer: its decimal digits.\<close>

fun digits :: "nat \<Rightarrow> jsstring" where
  "digits n = (if n < 10 then [of_nat (48 + n)] else digits (n div 10) @ [of_nat (48 + n mod 10)])"

definition String_of_int :: "int \<Rightarrow> jsstring" where
  "String_of_int n = (if n < 0 then 0x2D # digits (nat (- n)) else digits (nat n))"

text \<open>
  \<open>s.replace(c, r)\<close> for a one-unit search string: the first occurrence is replaced
  (the replacement is taken to have no \<open>$\<close> pattern). A variable of the environment
  that is not set prints as \<open>undefined\<close>.
\<close>

fun replace_first :: "16 word \<Rightarrow> jsstring \<Rightarrow> jsstring \<Rightarrow> jsstring" where
  "replace_first c r [] = []"
| "replace_first c r (x # xs) = (if x = c then r @ xs else x # replace_first c r xs)"

definition print_undefined :: "jsstring option \<Rightarrow> jsstring" where
  "print_undefined a = (case a of None \<Rightarrow> js ''undefined'' | Some s \<Rightarrow> s)"

definition or_string :: "jsstring \<Rightarrow> jsstring \<Rightarrow> jsstring" where
  "or_string a d = (if a = [] then d else a)"

definition dataDir :: "'w runtime \<Rightarrow> config \<Rightarrow> jsstring" where
  "dataDir rt cfg =
     replace_first 0x7E (print_undefined (process_env rt (js ''HOME''))) (data_dir cfg)"

text \<open>\<open>containerName\<close>: every unit outside \<open>[a-zA-Z0-9_.-]\<close> becomes \<open>_\<close>.\<close>

definition docker_safe :: "16 word \<Rightarrow> bool" where
  "docker_safe u \<longleftrightarrow>
     (0x61 \<le> u \<and> u \<le> 0x7A) \<or> (0x41 \<le> u \<and> u \<le> 0x5A) \<or> (0x30 \<le> u \<and> u \<le> 0x39)
     \<or> u = 0x5F \<or> u = 0x2E \<or> u = 0x2D"

definition containerName :: "config \<Rightarrow> jsstring \<Rightarrow> jsstring" where
  "containerName cfg w =
     container_prefix cfg @ map (\<lambda>u. if docker_safe u then u else 0x5F) w"

definition userDataDir :: "'w runtime \<Rightarrow> config \<Rightarrow> jsstring \<Rightarrow> ('w, jsstring) action" where
  "userDataDir rt cfg w =
     (let dir = path_join rt (dataDir rt cfg) w
      in andThen (mkdir rt dir) (\<lambda>_. return dir))"

definition getNetwork :: "config \<Rightarrow> jsstring \<Rightarrow> jsstring" where
  "getNetwork cfg perm =
     (if perm = js ''admin'' then or_string (network_admin cfg) (js ''bridge'')
      else if perm = js ''trusted'' then or_string (network_trusted cfg) (js ''claude-limited'')
      else or_string (network_normal cfg) (js ''none''))"

text \<open>
  The argument list of \<open>docker create\<close>, as \<open>createContainer\<close> builds it: first the
  literal list, then, for \<open>admin\<close>, the two assignments at the index after
  \<open>--memory\<close> and after \<open>--cpus\<close>. \<open>args.indexOf\<close> finds the first element equal to
  the flag, or \<open>-1\<close>; both flags are in the list, the first no later than index 3,
  so the assignment is always inside the list.
\<close>

fun indexOf :: "'a list \<Rightarrow> 'a \<Rightarrow> int" where
  "indexOf [] a = -1"
| "indexOf (x # xs) a =
     (if x = a then 0 else (let i = indexOf xs a in if i < 0 then -1 else i + 1))"

definition createContainer_args ::
  "'w runtime \<Rightarrow> config \<Rightarrow> jsstring \<Rightarrow> jsstring \<Rightarrow> jsstring \<Rightarrow> jsstring list" where
  "createContainer_args rt cfg w perm userDir =
     (let args =
        [js ''create'',
         js ''--name'', containerName cfg w,
         js ''--memory'', limits_memory cfg,
         js ''--cpus'', String_of_int (limits_cpus cfg),
         js ''--pids-limit'', String_of_int (limits_pids cfg),
         js ''--tmpfs'', js ''/tmp:size='' @ limits_tmp_size cfg,
         js ''--read-only'',
         js ''--security-opt'', js ''no-new-privileges'',
         js ''--cap-drop'', js ''ALL'',
         js ''--network'', getNetwork cfg perm,
         js ''-v'', userDir @ js ''/workspace:/home/sandbox/workspace'',
         js ''-v'', userDir @ js ''/claude-config:/home/sandbox/.claude'',
         js ''-e'', js ''WXID='' @ w,
         js ''-e'',
         js ''ANTHROPIC_API_KEY='' @ or_default (process_env rt (js ''ANTHROPIC_API_KEY'')) [],
         js ''--label'', js ''app=wechat-claude-bridge'',
         js ''--label'', js ''wxid='' @ w,
         js ''--label'', js ''permission='' @ perm,
         js ''-d'',
         js ''--restart'', js ''unless-stopped'',
         docker_image cfg,
         js ''tail'', js ''-f'', js ''/dev/null'']
      in if perm = js ''admin''
         then
           (let args1 = args[nat (indexOf args (js ''--memory'') + 1) :=
                          or_string (limits_admin_memory cfg) (js ''2g'')]
            in args1[nat (indexOf args1 (js ''--cpus'') + 1) :=
                  String_of_int (or_int (Some (limits_admin_cpus cfg)) 2)])
         else args)"

text \<open>
  \<open>fixPermissions\<close>: the two directories are made on the host (an exception of
  \<open>mkdirSync\<close> is not caught), then \<open>chown\<close> runs in the container, and a failure of
  that one is ignored.
\<close>

definition fixPermissions :: "'w runtime \<Rightarrow> config \<Rightarrow> jsstring \<Rightarrow> ('w, unit) action" where
  "fixPermissions rt cfg w =
     andThen (userDataDir rt cfg w) (\<lambda>dir.
     andThen (mkdir rt (path_join rt dir (js ''workspace''))) (\<lambda>_.
     andThen (mkdir rt (path_join rt dir (js ''claude-config''))) (\<lambda>_.
     tryCatch
       (andThen
          (execFileAsync rt
             [js ''exec'', js ''-u'', js ''root'', containerName cfg w,
              js ''chown'', js ''-R'', js ''sandbox:sandbox'',
              js ''/home/sandbox/workspace'', js ''/home/sandbox/.claude''])
          (\<lambda>_. return ()))
       (\<lambda>_. return ()))))"

definition createContainer :: "'w runtime \<Rightarrow> config \<Rightarrow> jsstring \<Rightarrow> jsstring \<Rightarrow> ('w, unit) action" where
  "createContainer rt cfg w perm =
     andThen (userDataDir rt cfg w) (\<lambda>dir.
     andThen (execFileAsync rt (createContainer_args rt cfg w perm dir)) (\<lambda>_.
     fixPermissions rt cfg w))"

definition containerExists :: "'w runtime \<Rightarrow> jsstring \<Rightarrow> ('w, bool) action" where
  "containerExists rt name =
     tryCatch
       (andThen (execFileAsync rt [js ''inspect'', name]) (\<lambda>_. return True))
       (\<lambda>_. return False)"

definition isRunning :: "'w runtime \<Rightarrow> jsstring \<Rightarrow> ('w, bool) action" where
  "isRunning rt name =
     tryCatch
       (andThen
          (execFileAsync rt [js ''inspect'', js ''-f'', js ''{{.State.Running}}'', name])
          (\<lambda>stdout. return (trim stdout = js ''true'')))
       (\<lambda>_. return False)"

definition startContainer :: "'w runtime \<Rightarrow> jsstring \<Rightarrow> ('w, unit) action" where
  "startContainer rt name =
     andThen (execFileAsync rt [js ''start'', name]) (\<lambda>_. return ())"

definition ensureContainer :: "'w runtime \<Rightarrow> config \<Rightarrow> jsstring \<Rightarrow> jsstring \<Rightarrow> ('w, jsstring) action" where
  "ensureContainer rt cfg w perm =
     (let name = containerName cfg w
      in andThen (containerExists rt name) (\<lambda>exists.
         andThen (if exists then return () else createContainer rt cfg w perm) (\<lambda>_.
         andThen (isRunning rt name) (\<lambda>running.
         andThen (if running then return () else startContainer rt name) (\<lambda>_.
         return name)))))"

definition stopContainer :: "'w runtime \<Rightarrow> config \<Rightarrow> jsstring \<Rightarrow> ('w, bool) action" where
  "stopContainer rt cfg w =
     tryCatch
       (andThen
          (execFileAsync rt [js ''stop'', js ''-t'', js ''10'', containerName cfg w])
          (\<lambda>_. return True))
       (\<lambda>_. return False)"

definition destroyContainer :: "'w runtime \<Rightarrow> config \<Rightarrow> jsstring \<Rightarrow> ('w, bool) action" where
  "destroyContainer rt cfg w =
     tryCatch
       (andThen
          (execFileAsync rt [js ''rm'', js ''-f'', containerName cfg w])
          (\<lambda>_. return True))
       (\<lambda>_. return False)"

definition rebuild :: "'w runtime \<Rightarrow> config \<Rightarrow> jsstring \<Rightarrow> jsstring \<Rightarrow> ('w, unit) action" where
  "rebuild rt cfg w perm =
     andThen (destroyContainer rt cfg w) (\<lambda>_.
     andThen (ensureContainer rt cfg w perm) (\<lambda>_.
     return ()))"

subsection \<open>Running commands in the container\<close>

text \<open>
  The replies of \<open>execClaude\<close>, by their code units:
  \<^item> \<open>txt_timeout\<close>: "request timed out";
  \<^item> \<open>txt_no_content\<close>: "(Claude returned no content)";
  \<^item> \<open>txt_exec_failed\<close>: "processing failed, please retry later";
  \<^item> \<open>txt_container_failed\<close>: "container execution failed".
\<close>

definition txt_timeout :: jsstring where
  "txt_timeout =
     [0x23F0, 0x20, 0x8BF7, 0x6C42, 0x8D85, 0x65F6]"

definition txt_no_content :: jsstring where
  "txt_no_content =
     [0x28, 0x43, 0x6C, 0x61, 0x75, 0x64, 0x65, 0x20, 0x6CA1, 0x6709, 0x8FD4, 0x56DE,
      0x5185, 0x5BB9, 0x29]"

definition txt_exec_failed :: jsstring where
  "txt_exec_failed =
     [0x274C, 0x20, 0x5904, 0x7406, 0x51FA, 0x9519, 0x4E86, 0xFF0C, 0x8BF7, 0x7A0D,
      0x540E, 0x91CD, 0x8BD5]"

definition txt_container_failed :: jsstring where
  "txt_container_failed =
     [0x274C, 0x20, 0x5BB9, 0x5668, 0x6267, 0x884C, 0x5931, 0x8D25]"


record exec_result =
  result_ok :: bool
  result_output :: jsstring
  result_stderr :: "jsstring option"

definition execClaude_args ::
  "'w runtime \<Rightarrow> config \<Rightarrow> jsstring \<Rightarrow> jsstring \<Rightarrow> jsstring \<Rightarrow> jsstring option \<Rightarrow> jsstring
   \<Rightarrow> jsstring list" where
  "execClaude_args rt cfg w systemPrompt msg claudeSession perm =
     [js ''exec'',
      js ''-u'', js ''sandbox'',
      js ''-w'', js ''/home/sandbox/workspace'',
      js ''-e'',
      js ''ANTHROPIC_API_KEY='' @ or_default (process_env rt (js ''ANTHROPIC_API_KEY'')) [],
      containerName cfg w]
     @ [js ''claude'', js ''--print'', js ''--output-format'', js ''text'',
        js ''--system-prompt'', systemPrompt]
     @ (if truthy claudeSession then [js ''--resume'', or_default claudeSession []] else [])
     @ (if perm = js ''normal'' then [js ''--allowedTools'', []] else [])
     @ [msg]"

text \<open>
  \<open>execClaude\<close> resolves with what happens first: the timer, the \<open>close\<close> event or
  the \<open>error\<close> event. An exception thrown by \<open>spawn\<close> itself rejects the promise.
  The other tasks run while the promise is pending.
\<close>

definition execClaude ::
  "'w runtime \<Rightarrow> config \<Rightarrow> jsstring \<Rightarrow> jsstring \<Rightarrow> jsstring \<Rightarrow> jsstring option \<Rightarrow> jsstring
   \<Rightarrow> int \<Rightarrow> ('w, exec_result) action" where
  "execClaude rt cfg w systemPrompt msg claudeSession perm timeout s =
     (let ms = or_int (Some timeout) (claude_timeout cfg) * 1000;
          args = execClaude_args rt cfg w systemPrompt msg claudeSession perm;
          s1 = meanwhile rt (s\<lparr>trace := trace s @ [Spawn args ms]\<rparr>);
          (r, h) = spawn_docker rt (host s1) args ms;
          s' = s1\<lparr>host := h\<rparr>
      in case r of
           TimerFired \<Rightarrow> (Inr \<lparr>result_ok = False, result_output = txt_timeout, result_stderr = None\<rparr>, s')
         | Close code out err \<Rightarrow>
             if code = Some 0
             then (Inr \<lparr>result_ok = True,
                        result_output = or_string (trim out) txt_no_content,
                        result_stderr = Some err\<rparr>, s')
             else (Inr \<lparr>result_ok = False, result_output = txt_exec_failed, result_stderr = Some err\<rparr>, s')
         | ErrorEvent m \<Rightarrow>
             (Inr \<lparr>result_ok = False, result_output = txt_container_failed, result_stderr = None\<rparr>, s')
         | SpawnThrew \<Rightarrow> (Inl TypeError, s'))"

definition exn_message :: "exn \<Rightarrow> jsstring" where
  "exn_message e = (case e of ProcessError m \<Rightarrow> m | _ \<Rightarrow> [])"

definition execCommand ::
  "'w runtime \<Rightarrow> config \<Rightarrow> jsstring \<Rightarrow> jsstring \<Rightarrow> bool \<Rightarrow> ('w, jsstring) action" where
  "execCommand rt cfg w command asRoot =
     tryCatch
       (andThen
          (execFileAsync rt
             [js ''exec'', js ''-u'', (if asRoot then js ''root'' else js ''sandbox''),
              containerName cfg w, js ''sh'', js ''-c'', command])
          (\<lambda>stdout. return (trim stdout)))
       (\<lambda>err. return (js ''Error: '' @ exn_message err))"

definition getStats ::
  "'w runtime \<Rightarrow> config \<Rightarrow> jsstring \<Rightarrow> ('w, container_stats option) action" where
  "getStats rt cfg w =
     tryCatch
       (andThen
          (execFileAsync rt
             [js ''stats'', js ''--no-stream'', js ''--format'',
              [0x7B, 0x22] @ js ''cpu'' @ [0x22, 0x3A, 0x22] @ js ''{{.CPUPerc}}''
              @ [0x22, 0x2C, 0x22] @ js ''mem'' @ [0x22, 0x3A, 0x22] @ js ''{{.MemUsage}}''
              @ [0x22, 0x2C, 0x22] @ js ''net'' @ [0x22, 0x3A, 0x22] @ js ''{{.NetIO}}''
              @ [0x22, 0x2C, 0x22] @ js ''pids'' @ [0x22, 0x3A, 0x22] @ js ''{{.PIDs}}''
              @ [0x22, 0x7D],
              containerName cfg w])
          (\<lambda>stdout. return (json_parse_stats rt (trim stdout))))
       (\<lambda>_. return None)"

definition getDiskUsage :: "'w runtime \<Rightarrow> config \<Rightarrow> jsstring \<Rightarrow> ('w, jsstring) action" where
  "getDiskUsage rt cfg w = execCommand rt cfg w (js ''du -sh /home/sandbox/workspace'') False"

text \<open>
  \<open>listContainers\<close> reads the lines \<open>name TAB status TAB labels\<close> of \<open>docker ps\<close>.
  \<open>s.split(c)\<close> always yields at least one part; a part that is missing is
  \<open>undefined\<close>. Of several labels with one key the last one counts.
\<close>

fun split_on :: "16 word \<Rightarrow> jsstring \<Rightarrow> jsstring list" where
  "split_on c [] = [[]]"
| "split_on c (x # xs) =
     (if x = c then [] # split_on c xs
      else (case split_on c xs of [] \<Rightarrow> [[x]] | p # ps \<Rightarrow> (x # p) # ps))"

definition part :: "jsstring list \<Rightarrow> nat \<Rightarrow> jsstring option" where
  "part ps i = (if i < length ps then Some (ps ! i) else None)"

record container_info =
  info_name :: "jsstring option"
  info_status :: "jsstring option"
  info_wxid :: "jsstring option"
  info_permission :: "jsstring option"

definition label_value :: "jsstring \<Rightarrow> jsstring option \<Rightarrow> jsstring option" where
  "label_value key labels =
     (case labels of
        None \<Rightarrow> None
      | Some ls \<Rightarrow>
          (case filter (\<lambda>l. part (split_on 0x3D l) 0 = Some key) (split_on 0x2C ls) of
             [] \<Rightarrow> None
           | m # ms \<Rightarrow> part (split_on 0x3D (last (m # ms))) 1))"

definition parse_container_line :: "jsstring \<Rightarrow> container_info" where
  "parse_container_line line =
     (let ps = split_on 0x09 line
      in \<lparr>info_name = part ps 0,
          info_status = part ps 1,
          info_wxid = label_value (js ''wxid'') (part ps 2),
          info_permission = label_value (js ''permission'') (part ps 2)\<rparr>)"

definition listContainers :: "'w runtime \<Rightarrow> ('w, container_info list) action" where
  "listContainers rt =
     tryCatch
       (andThen
          (execFileAsync rt
             [js ''ps'', js ''-a'', js ''--filter'', js ''label=app=wechat-claude-bridge'',
              js ''--format'', js ''{{.Names}}'' @ [0x09] @ js ''{{.Status}}'' @ [0x09]
                @ js ''{{.Labels}}''])
          (\<lambda>stdout. return
             (map parse_container_line
                (filter (\<lambda>l. l \<noteq> []) (split_on newline (trim stdout))))))
       (\<lambda>_. return [])"

section \<open>The executor (claude-executor.js)\<close>

text \<open>
  The texts of the executor, by their code units:
  \<^item> \<open>txt_busy\<close>: the busy reply, "the previous message is still being processed, try again later";
  \<^item> \<open>txt_execute_error\<close>: the reply of the \<open>catch\<close> of \<open>execute\<close>, "an error occurred while handling the message, please retry later";
  \<^item> \<open>prompt_identity\<close>: "identity of the current user:";
  \<^item> \<open>prompt_wxid\<close>: "- WeChat ID: ";
  \<^item> \<open>prompt_nickname\<close>: "- nickname: ";
  \<^item> \<open>prompt_tier\<close>: "- permission tier: ";
  \<^item> \<open>prompt_admin\<close>: "administrator, full rights, may run any code and system operation";
  \<^item> \<open>prompt_trusted\<close>: "trusted user, may run code and file operations (inside the sandbox)";
  \<^item> \<open>prompt_normal\<close>: "ordinary user, questions and answers only, no code and no file system";
  \<^item> \<open>prompt_unknown\<close>: "unknown";
  \<^item> \<open>prompt_environment\<close>: "environment:";
  \<^item> \<open>prompt_container\<close>: "- you run in this user's own Docker container";
  \<^item> \<open>prompt_workdir\<close>: "- working directory: /home/sandbox/workspace (persistent)";
  \<^item> \<open>prompt_isolated\<close>: "- the container is isolated from other users";
  \<^item> \<open>prompt_questions_only\<close>: "- this user is limited to questions and answers; do not run code, shell commands or file operations";
  \<^item> \<open>prompt_may_execute\<close>: "- this user may ask for code and file operations";
  \<^item> \<open>prompt_concise\<close>: "- keep replies short, fit for reading in WeChat".
\<close>

definition txt_busy :: jsstring where
  "txt_busy =
     [0x23F3, 0x20, 0x4E0A, 0x4E00, 0x6761, 0x6D88, 0x606F, 0x8FD8, 0x5728, 0x5904,
      0x7406, 0x4E2D, 0xFF0C, 0x8BF7, 0x7A0D, 0x540E, 0x518D, 0x8BD5, 0x2E, 0x2E,
      0x2E]"

definition txt_execute_error :: jsstring where
  "txt_execute_error =
     [0x274C, 0x20, 0x5904, 0x7406, 0x6D88, 0x606F, 0x65F6, 0x51FA, 0x9519, 0xFF0C,
      0x8BF7, 0x7A0D, 0x540E, 0x91CD, 0x8BD5]"

definition prompt_identity :: jsstring where
  "prompt_identity =
     [0x5F53, 0x524D, 0x7528, 0x6237, 0x8EAB, 0x4EFD, 0x4FE1, 0x606F, 0x3A]"

definition prompt_wxid :: jsstring where
  "prompt_wxid =
     [0x2D, 0x20, 0x5FAE, 0x4FE1, 0x49, 0x44, 0x3A, 0x20]"

definition prompt_nickname :: jsstring where
  "prompt_nickname =
     [0x2D, 0x20, 0x6635, 0x79F0, 0x3A, 0x20]"

definition prompt_tier :: jsstring where
  "prompt_tier =
     [0x2D, 0x20, 0x6743, 0x9650, 0x7B49, 0x7EA7, 0x3A, 0x20]"

definition prompt_admin :: jsstring where
  "prompt_admin =
     [0x7BA1, 0x7406, 0x5458, 0xFF0C, 0x62E5, 0x6709, 0x5B8C, 0x5168, 0x6743, 0x9650,
      0xFF0C, 0x53EF, 0x4EE5, 0x6267, 0x884C, 0x4EFB, 0x4F55, 0x4EE3, 0x7801, 0x548C,
      0x7CFB, 0x7EDF, 0x64CD, 0x4F5C]"

definition prompt_trusted :: jsstring where
  "prompt_trusted =
     [0x4FE1, 0x4EFB, 0x7528, 0x6237, 0xFF0C, 0x53EF, 0x4EE5, 0x6267, 0x884C, 0x4EE3,
      0x7801, 0x548C, 0x6587, 0x4EF6, 0x64CD, 0x4F5C, 0xFF08, 0x6C99, 0x7BB1, 0x73AF,
      0x5883, 0x5185, 0xFF09]"

definition prompt_normal :: jsstring where
  "prompt_normal =
     [0x666E, 0x901A, 0x7528, 0x6237, 0xFF0C, 0x4EC5, 0x9650, 0x95EE, 0x7B54, 0x4EA4,
      0x6D41, 0xFF0C, 0x4E0D, 0x53EF, 0x6267, 0x884C, 0x4EE3, 0x7801, 0x6216, 0x8BBF,
      0x95EE, 0x6587, 0x4EF6, 0x7CFB, 0x7EDF]"

definition prompt_unknown :: jsstring where
  "prompt_unknown =
     [0x672A, 0x77E5]"

definition prompt_environment :: jsstring where
  "prompt_environment =
     [0x73AF, 0x5883, 0x8BF4, 0x660E, 0x3A]"

definition prompt_container :: jsstring where
  "prompt_container =
     [0x2D, 0x20, 0x4F60, 0x8FD0, 0x884C, 0x5728, 0x6B64, 0x7528, 0x6237, 0x7684,
      0x4E13, 0x5C5E, 0x20, 0x44, 0x6F, 0x63, 0x6B, 0x65, 0x72, 0x20, 0x5BB9, 0x5668,
      0x4E2D]"

definition prompt_workdir :: jsstring where
  "prompt_workdir =
     [0x2D, 0x20, 0x5DE5, 0x4F5C, 0x76EE, 0x5F55, 0x3A, 0x20, 0x2F, 0x68, 0x6F, 0x6D,
      0x65, 0x2F, 0x73, 0x61, 0x6E, 0x64, 0x62, 0x6F, 0x78, 0x2F, 0x77, 0x6F, 0x72,
      0x6B, 0x73, 0x70, 0x61, 0x63, 0x65, 0xFF08, 0x6301, 0x4E45, 0x5316, 0x5B58,
      0x50A8, 0xFF09]"

definition prompt_isolated :: jsstring where
  "prompt_isolated =
     [0x2D, 0x20, 0x5BB9, 0x5668, 0x4E0E, 0x5176, 0x4ED6, 0x7528, 0x6237, 0x5B8C,
      0x5168, 0x9694, 0x79BB]"

definition prompt_questions_only :: jsstring where
  "prompt_questions_only =
     [0x2D, 0x20, 0x26A0, 0xFE0F, 0x20, 0x6B64, 0x7528, 0x6237, 0x4EC5, 0x9650,
      0x95EE, 0x7B54, 0xFF0C, 0x8BF7, 0x52FF, 0x6267, 0x884C, 0x4EFB, 0x4F55, 0x4EE3,
      0x7801, 0x3001, 0x73, 0x68, 0x65, 0x6C, 0x6C, 0x547D, 0x4EE4, 0x6216, 0x6587,
      0x4EF6, 0x64CD, 0x4F5C]"

definition prompt_may_execute :: jsstring where
  "prompt_may_execute =
     [0x2D, 0x20, 0x6B64, 0x7528, 0x6237, 0x53EF, 0x4EE5, 0x8BF7, 0x6C42, 0x6267,
      0x884C, 0x4EE3, 0x7801, 0x548C, 0x6587, 0x4EF6, 0x64CD, 0x4F5C]"

definition prompt_concise :: jsstring where
  "prompt_concise =
     [0x2D, 0x20, 0x56DE, 0x590D, 0x8BF7, 0x4FDD, 0x6301, 0x7B80, 0x6D01, 0xFF0C,
      0x9002, 0x5408, 0x5FAE, 0x4FE1, 0x9605, 0x8BFB]"


definition get_store :: "('w, database) action" where
  "get_store s = (Inr (store s), s)"

definition now_text :: "'w runtime \<Rightarrow> ('w, jsstring) action" where
  "now_text rt s = (Inr (current_timestamp rt (host s)), s)"

definition now_ms :: "'w runtime \<Rightarrow> ('w, int) action" where
  "now_ms rt s = (Inr (date_now rt (host s)), s)"

definition fresh_uuid :: "'w runtime \<Rightarrow> ('w, jsstring) action" where
  "fresh_uuid rt s = (let (u, h) = uuidv4 rt (host s) in (Inr u, s\<lparr>host := h\<rparr>))"

text \<open>
  The test of \<open>getOrCreateSession\<close>:
  \<open>Date.now() - lastActive.getTime() > expireMs\<close>. When \<open>last_active\<close> does not parse,
  \<open>getTime()\<close> is \<open>NaN\<close>, the difference is \<open>NaN\<close>, and the comparison is false.
\<close>

definition session_expired :: "'w runtime \<Rightarrow> config \<Rightarrow> int \<Rightarrow> session \<Rightarrow> bool" where
  "session_expired rt cfg now sess =
     (case date_getTime rt (last_active sess) of
        None \<Rightarrow> False
      | Some lastActive \<Rightarrow> expire_minutes cfg * 60 * 1000 < now - lastActive)"

text \<open>
  \<open>getOrCreateSession\<close> returns what the last \<open>getActive\<close> gave, a row or
  \<open>undefined\<close>.
\<close>

definition createSession :: "'w runtime \<Rightarrow> jsstring \<Rightarrow> ('w, session option) action" where
  "createSession rt w =
     andThen (fresh_uuid rt) (\<lambda>sessionId.
     andThen (now_text rt) (\<lambda>now.
     andThen (run_store (\<lambda>db. sessionsDB_create now db sessionId w None)) (\<lambda>_.
     andThen get_store (\<lambda>db.
     return (sessionsDB_getActive db w)))))"

definition getOrCreateSession ::
  "'w runtime \<Rightarrow> config \<Rightarrow> jsstring \<Rightarrow> ('w, session option) action" where
  "getOrCreateSession rt cfg w =
     andThen get_store (\<lambda>db.
     case sessionsDB_getActive db w of
       None \<Rightarrow> createSession rt w
     | Some sess \<Rightarrow>
         andThen (now_ms rt) (\<lambda>now.
         if session_expired rt cfg now sess
         then andThen (modify_store (\<lambda>db. sessionsDB_clearUser db w)) (\<lambda>_.
              createSession rt w)
         else return (Some sess)))"

definition join :: "jsstring \<Rightarrow> jsstring list \<Rightarrow> jsstring" where
  "join sep parts = (case parts of [] \<Rightarrow> [] | p # ps \<Rightarrow> p @ concat (map (\<lambda>q. sep @ q) ps))"

definition permDesc :: "jsstring \<Rightarrow> jsstring" where
  "permDesc perm =
     (if perm = js ''admin'' then prompt_admin
      else if perm = js ''trusted'' then prompt_trusted
      else if perm = js ''normal'' then prompt_normal
      else prompt_unknown)"

definition displayName_of :: "jsstring option \<Rightarrow> jsstring option \<Rightarrow> jsstring \<Rightarrow> jsstring" where
  "displayName_of remark nick w = or_default remark (or_default nick w)"

definition buildSystemPrompt :: "friend \<Rightarrow> jsstring" where
  "buildSystemPrompt friendInfo =
     join [newline]
       [prompt_identity,
        prompt_wxid @ wxid friendInfo,
        prompt_nickname
          @ displayName_of (remark_name friendInfo) (nickname friendInfo) (wxid friendInfo),
        prompt_tier @ permission friendInfo @ js '' ('' @ permDesc (permission friendInfo)
          @ js '')'',
        [],
        prompt_environment,
        prompt_container,
        prompt_workdir,
        prompt_isolated,
        (if permission friendInfo = js ''normal'' then prompt_questions_only
         else prompt_may_execute),
        prompt_concise]"

definition tryExtractSessionId ::
  "'w runtime \<Rightarrow> jsstring \<Rightarrow> jsstring \<Rightarrow> ('w, unit) action" where
  "tryExtractSessionId rt sessionId err =
     (case session_match rt err of
        None \<Rightarrow> return ()
      | Some m \<Rightarrow> modify_store (\<lambda>db. sessionsDB_setClaudeSession db sessionId m))"

text \<open>
  The \<open>try\<close> block of \<open>execute\<close>. \<open>friendInfo\<close> is the row \<open>friendsDB.get\<close> gave the
  router, \<open>undefined\<close> when there is none; reading \<open>permission\<close> of \<open>undefined\<close>, or
  \<open>id\<close> of an \<open>undefined\<close> session, is a \<open>TypeError\<close>.
\<close>

definition execute_try ::
  "'w runtime \<Rightarrow> config \<Rightarrow> jsstring \<Rightarrow> friend option \<Rightarrow> jsstring \<Rightarrow> ('w, jsstring) action" where
  "execute_try rt cfg w friendInfo msg =
     (case friendInfo of
        None \<Rightarrow> throw TypeError
      | Some info \<Rightarrow>
          andThen (ensureContainer rt cfg w (permission info)) (\<lambda>_.
          andThen (getOrCreateSession rt cfg w) (\<lambda>session.
          case session of
            None \<Rightarrow> throw TypeError
          | Some sess \<Rightarrow>
              andThen (now_text rt) (\<lambda>now.
              andThen (modify_store (\<lambda>db. sessionsDB_touch now db (session_id sess))) (\<lambda>_.
              andThen (execClaude rt cfg w (buildSystemPrompt info) msg
                         (claude_session sess) (permission info) (claude_timeout cfg))
                (\<lambda>result.
              andThen (if truthy (result_stderr result)
                       then tryExtractSessionId rt (session_id sess)
                              (or_default (result_stderr result) [])
                       else return ()) (\<lambda>_.
              return (truncate_response (result_output result)))))))))"

text \<open>
  \<open>execute\<close>: the guard, the \<open>try\<close> block run with the wxid in the map, the \<open>catch\<close>
  that turns any exception into the error reply, and the \<open>finally\<close> that deletes
  the wxid from the map.
\<close>

definition execute ::
  "'w runtime \<Rightarrow> config \<Rightarrow> jsstring \<Rightarrow> friend option \<Rightarrow> jsstring \<Rightarrow> ('w, jsstring) action" where
  "execute rt cfg w friendInfo msg s =
     (if w \<in> activeTasks s then (Inr txt_busy, s)
      else
        (let (r, s') =
               tryCatch (execute_try rt cfg w friendInfo msg) (\<lambda>error. return txt_execute_error)
                 (s\<lparr>activeTasks := insert w (activeTasks s)\<rparr>)
         in (r, s'\<lparr>activeTasks := activeTasks s' - {w}\<rparr>)))"

subsection \<open>What the router calls besides \<open>execute\<close>\<close>

text \<open>
  \<open>claudeExecutor.stopContainer\<close> and \<open>claudeExecutor.listContainers\<close> only pass the
  call on to the container manager; the router's calls are modelled by
  \<open>stopContainer\<close> and \<open>listContainers\<close> themselves.
\<close>

definition delete_task :: "jsstring \<Rightarrow> ('w, unit) action" where
  "delete_task w s = (Inr (), s\<lparr>activeTasks := activeTasks s - {w}\<rparr>)"

definition clearSession ::
  "'w runtime \<Rightarrow> config \<Rightarrow> jsstring \<Rightarrow> bool \<Rightarrow> ('w, unit) action" where
  "clearSession rt cfg w restartContainer =
     andThen (modify_store (\<lambda>db. sessionsDB_clearUser db w)) (\<lambda>_.
     if restartContainer
     then andThen (stopContainer rt cfg w) (\<lambda>_.
          andThen (ensureContainer rt cfg w (js ''normal'')) (\<lambda>_.
          return ()))
     else return ())"

definition killProcess :: "'w runtime \<Rightarrow> config \<Rightarrow> jsstring \<Rightarrow> ('w, bool) action" where
  "killProcess rt cfg w =
     tryCatch
       (andThen (execCommand rt cfg w (js ''pkill -f claude || true'') True) (\<lambda>_.
        andThen (delete_task w) (\<lambda>_.
        return True)))
       (\<lambda>_. return False)"

record container_status =
  status_name :: jsstring
  status_running :: bool
  status_stats :: "container_stats option"
  status_disk :: "jsstring option"

definition getContainerStatus ::
  "'w runtime \<Rightarrow> config \<Rightarrow> jsstring \<Rightarrow> ('w, container_status) action" where
  "getContainerStatus rt cfg w =
     (let name = containerName cfg w
      in andThen (isRunning rt name) (\<lambda>running.
         andThen (if running then getStats rt cfg w else return None) (\<lambda>stats.
         andThen (if running
                  then andThen (getDiskUsage rt cfg w) (\<lambda>d. return (Some d))
                  else return None) (\<lambda>disk.
         return \<lparr>status_name = name, status_running = running,
                 status_stats = stats, status_disk = disk\<rparr>))))"

definition executor_destroyContainer ::
  "'w runtime \<Rightarrow> config \<Rightarrow> jsstring \<Rightarrow> ('w, bool) action" where
  "executor_destroyContainer rt cfg w =
     andThen (modify_store (\<lambda>db. sessionsDB_clearUser db w)) (\<lambda>_.
     andThen (delete_task w) (\<lambda>_.
     destroyContainer rt cfg w))"

definition executor_rebuildContainer ::
  "'w runtime \<Rightarrow> config \<Rightarrow> jsstring \<Rightarrow> jsstring \<Rightarrow> ('w, unit) action" where
  "executor_rebuildContainer rt cfg w perm =
     andThen (modify_store (\<lambda>db. sessionsDB_clearUser db w)) (\<lambda>_.
     andThen (delete_task w) (\<lambda>_.
     rebuild rt cfg w perm))"

section \<open>The router (message-router.js)\<close>

text \<open>
  The texts of the router, by their code units:
  \<^item> \<open>txt_hidden\<close>: "[hidden]", logged in place of a message body;
  \<^item> \<open>txt_warning\<close>: the warning sign and a blank, put before a denial;
  \<^item> \<open>txt_router_error\<close>: the reply of the \<open>catch\<close> of \<open>handleMessage\<close>, "an error occurred while handling the message, please retry later";
  \<^item> \<open>txt_insufficient\<close>: "insufficient permission";
  \<^item> \<open>desc_help\<close>: the descriptions of the commands: "show help",
  \<^item> \<open>desc_status\<close>: "show status (with container information)",
  \<^item> \<open>desc_clear\<close>: "clear the session history",
  \<^item> \<open>desc_allow\<close>: "authorise a friend: /allow nickname [trusted|normal]",
  \<^item> \<open>desc_block\<close>: "block a friend: /block nickname",
  \<^item> \<open>desc_list\<close>: "list all authorised friends",
  \<^item> \<open>desc_logs\<close>: "show the log: /logs [nickname]",
  \<^item> \<open>desc_kill\<close>: "end a friend's process: /kill nickname",
  \<^item> \<open>desc_containers\<close>: "show the state of all containers",
  \<^item> \<open>desc_restart\<close>: "restart a container: /restart nickname",
  \<^item> \<open>desc_destroy\<close>: "destroy a container (data kept): /destroy nickname",
  \<^item> \<open>desc_rebuild\<close>: "rebuild a container: /rebuild nickname",
  \<^item> \<open>desc_stopall\<close>: "stop all containers";
  \<^item> \<open>txt_help_head\<close>: "available commands:" and a newline;
  \<^item> \<open>txt_help_foot\<close>: a newline and "send plain text to talk to Claude";
  \<^item> \<open>txt_status_head\<close>: "current status:" and a newline;
  \<^item> \<open>txt_status_user\<close>: the user sign;
  \<^item> \<open>txt_unknown\<close>: "unknown";
  \<^item> \<open>txt_status_perm\<close>: "permission: ";
  \<^item> \<open>txt_none\<close>: "none";
  \<^item> \<open>txt_status_session\<close>: "session: ";
  \<^item> \<open>txt_active\<close>: "active (";
  \<^item> \<open>txt_messages\<close>: " messages)";
  \<^item> \<open>txt_status_container\<close>: "container: ";
  \<^item> \<open>txt_status_state\<close>: "   state: ";
  \<^item> \<open>txt_running\<close>: "running";
  \<^item> \<open>txt_stopped\<close>: "stopped";
  \<^item> \<open>txt_status_cpu\<close>: "   CPU: ";
  \<^item> \<open>txt_status_mem\<close>: "   memory: ";
  \<^item> \<open>txt_status_pids\<close>: "   processes: ";
  \<^item> \<open>txt_status_disk\<close>: "   disk: ";
  \<^item> \<open>txt_cleared\<close>: "session cleared, the next message starts a new context";
  \<^item> \<open>usage_allow\<close>: the usage lines of \<open>/allow\<close>,
  \<^item> \<open>usage_block\<close>: \<open>/block\<close>,
  \<^item> \<open>usage_kill\<close>: \<open>/kill\<close>,
  \<^item> \<open>usage_restart\<close>: \<open>/restart\<close>,
  \<^item> \<open>usage_destroy\<close>: \<open>/destroy\<close>
  \<^item> \<open>usage_rebuild\<close>: and \<open>/rebuild\<close>;
  \<^item> \<open>txt_invalid_level\<close>: "invalid tier, choose one of trusted, normal, admin";
  \<^item> \<open>txt_not_found\<close>: "not found" and an opening quote;
  \<^item> \<open>txt_quote\<close>: the closing quote;
  \<^item> \<open>txt_must_message_first\<close>: the closing quote and "the friend has to send a message first";
  \<^item> \<open>txt_many_head\<close>: "several matches:" and a newline;
  \<^item> \<open>txt_many_foot\<close>: a newline and "please be precise";
  \<^item> \<open>txt_many\<close>: "several matches, please be precise";
  \<^item> \<open>txt_check\<close>: the check mark and a blank;
  \<^item> \<open>txt_arrow\<close>: an arrow between blanks;
  \<^item> \<open>txt_blocked_head\<close>: "blocked ";
  \<^item> \<open>txt_blocked_foot\<close>: ", container destroyed";
  \<^item> \<open>txt_no_friends\<close>: "no authorised friends yet";
  \<^item> \<open>txt_list_head\<close>: "friends:" and a newline;
  \<^item> \<open>icon_admin\<close>: the signs of the tiers \<open>admin\<close>,
  \<^item> \<open>icon_trusted\<close>: \<open>trusted\<close>,
  \<^item> \<open>icon_normal\<close>: \<open>normal\<close>
  \<^item> \<open>icon_blocked\<close>: and \<open>blocked\<close>;
  \<^item> \<open>txt_no_logs\<close>: "no log entries yet";
  \<^item> \<open>icon_in\<close>: the signs of an inbound
  \<^item> \<open>icon_out\<close>: and an outbound message;
  \<^item> \<open>txt_killed_head\<close>: "ended ";
  \<^item> \<open>txt_killed_foot\<close>: "'s process";
  \<^item> \<open>txt_nothing_running\<close>: "no running process";
  \<^item> \<open>txt_no_containers\<close>: "no running containers";
  \<^item> \<open>txt_containers_head\<close>: "containers:" and a newline;
  \<^item> \<open>icon_up\<close>: the signs of a container that is up
  \<^item> \<open>icon_down\<close>: and of one that is not;
  \<^item> \<open>txt_restarted_head\<close>: "restarted ";
  \<^item> \<open>txt_restarted_foot\<close>: "'s container (it starts with the next message)";
  \<^item> \<open>txt_destroyed_head\<close>: "destroyed ";
  \<^item> \<open>txt_destroyed_foot\<close>: "'s container (data kept, rebuilt with the next message)";
  \<^item> \<open>txt_rebuilt_head\<close>: "rebuilt ";
  \<^item> \<open>txt_rebuilt_foot\<close>: "'s container";
  \<^item> \<open>txt_stopall_head\<close>: "stopped all ";
  \<^item> \<open>txt_stopall_foot\<close>: " containers".
\<close>

definition txt_hidden :: jsstring where
  "txt_hidden =
     [0x5B, 0x5DF2, 0x9690, 0x85CF, 0x5D]"

definition txt_warning :: jsstring where
  "txt_warning =
     [0x26A0, 0xFE0F, 0x20]"

definition txt_router_error :: jsstring where
  "txt_router_error =
     [0x274C, 0x20, 0x5904, 0x7406, 0x6D88, 0x606F, 0x65F6, 0x51FA, 0x9519, 0x4E86,
      0xFF0C, 0x8BF7, 0x7A0D, 0x540E, 0x91CD, 0x8BD5]"

definition txt_insufficient :: jsstring where
  "txt_insufficient =
     [0x26A0, 0xFE0F, 0x20, 0x6743, 0x9650, 0x4E0D, 0x8DB3]"

definition desc_help :: jsstring where
  "desc_help =
     [0x67E5, 0x770B, 0x5E2E, 0x52A9]"

definition desc_status :: jsstring where
  "desc_status =
     [0x67E5, 0x770B, 0x72B6, 0x6001, 0xFF08, 0x542B, 0x5BB9, 0x5668, 0x4FE1, 0x606F,
      0xFF09]"

definition desc_clear :: jsstring where
  "desc_clear =
     [0x6E05, 0x9664, 0x4F1A, 0x8BDD, 0x5386, 0x53F2]"

definition desc_allow :: jsstring where
  "desc_allow =
     [0x6388, 0x6743, 0x597D, 0x53CB, 0x3A, 0x20, 0x2F, 0x61, 0x6C, 0x6C, 0x6F, 0x77,
      0x20, 0x6635, 0x79F0, 0x20, 0x5B, 0x74, 0x72, 0x75, 0x73, 0x74, 0x65, 0x64,
      0x7C, 0x6E, 0x6F, 0x72, 0x6D, 0x61, 0x6C, 0x5D]"

definition desc_block :: jsstring where
  "desc_block =
     [0x62C9, 0x9ED1, 0x597D, 0x53CB, 0x3A, 0x20, 0x2F, 0x62, 0x6C, 0x6F, 0x63, 0x6B,
      0x20, 0x6635, 0x79F0]"

definition desc_list :: jsstring where
  "desc_list =
     [0x5217, 0x51FA, 0x6240, 0x6709, 0x6388, 0x6743, 0x597D, 0x53CB]"

definition desc_logs :: jsstring where
  "desc_logs =
     [0x67E5, 0x770B, 0x65E5, 0x5FD7, 0x3A, 0x20, 0x2F, 0x6C, 0x6F, 0x67, 0x73, 0x20,
      0x5B, 0x6635, 0x79F0, 0x5D]"

definition desc_kill :: jsstring where
  "desc_kill =
     [0x7EC8, 0x6B62, 0x597D, 0x53CB, 0x8FDB, 0x7A0B, 0x3A, 0x20, 0x2F, 0x6B, 0x69,
      0x6C, 0x6C, 0x20, 0x6635, 0x79F0]"

definition desc_containers :: jsstring where
  "desc_containers =
     [0x67E5, 0x770B, 0x6240, 0x6709, 0x5BB9, 0x5668, 0x72B6, 0x6001]"

definition desc_restart :: jsstring where
  "desc_restart =
     [0x91CD, 0x542F, 0x5BB9, 0x5668, 0x3A, 0x20, 0x2F, 0x72, 0x65, 0x73, 0x74, 0x61,
      0x72, 0x74, 0x20, 0x6635, 0x79F0]"

definition desc_destroy :: jsstring where
  "desc_destroy =
     [0x9500, 0x6BC1, 0x5BB9, 0x5668, 0xFF08, 0x4FDD, 0x7559, 0x6570, 0x636E, 0xFF09,
      0x3A, 0x20, 0x2F, 0x64, 0x65, 0x73, 0x74, 0x72, 0x6F, 0x79, 0x20, 0x6635,
      0x79F0]"

definition desc_rebuild :: jsstring where
  "desc_rebuild =
     [0x91CD, 0x5EFA, 0x5BB9, 0x5668, 0x3A, 0x20, 0x2F, 0x72, 0x65, 0x62, 0x75, 0x69,
      0x6C, 0x64, 0x20, 0x6635, 0x79F0]"

definition desc_stopall :: jsstring where
  "desc_stopall =
     [0x505C, 0x6B62, 0x6240, 0x6709, 0x5BB9, 0x5668]"

definition txt_help_head :: jsstring where
  "txt_help_head =
     [0xD83D, 0xDCD6, 0x20, 0x53EF, 0x7528, 0x547D, 0x4EE4, 0x3A, 0xA]"

definition txt_help_foot :: jsstring where
  "txt_help_foot =
     [0xA, 0x76F4, 0x63A5, 0x53D1, 0x9001, 0x6587, 0x5B57, 0x6D88, 0x606F, 0x5373,
      0x53EF, 0x4E0E, 0x20, 0x43, 0x6C, 0x61, 0x75, 0x64, 0x65, 0x20, 0x5BF9, 0x8BDD]"

definition txt_status_head :: jsstring where
  "txt_status_head =
     [0xD83D, 0xDCCA, 0x20, 0x5F53, 0x524D, 0x72B6, 0x6001, 0x3A, 0xA]"

definition txt_status_user :: jsstring where
  "txt_status_user =
     [0xD83D, 0xDC64, 0x20]"

definition txt_unknown :: jsstring where
  "txt_unknown =
     [0x672A, 0x77E5]"

definition txt_status_perm :: jsstring where
  "txt_status_perm =
     [0xD83D, 0xDD11, 0x20, 0x6743, 0x9650, 0x3A, 0x20]"

definition txt_none :: jsstring where
  "txt_none =
     [0x65E0]"

definition txt_status_session :: jsstring where
  "txt_status_session =
     [0xD83D, 0xDCAC, 0x20, 0x4F1A, 0x8BDD, 0x3A, 0x20]"

definition txt_active :: jsstring where
  "txt_active =
     [0x6D3B, 0x8DC3, 0x20, 0x28]"

definition txt_messages :: jsstring where
  "txt_messages =
     [0x20, 0x6761, 0x6D88, 0x606F, 0x29]"

definition txt_status_container :: jsstring where
  "txt_status_container =
     [0xD83D, 0xDC33, 0x20, 0x5BB9, 0x5668, 0x3A, 0x20]"

definition txt_status_state :: jsstring where
  "txt_status_state =
     [0x20, 0x20, 0x20, 0x72B6, 0x6001, 0x3A, 0x20]"

definition txt_running :: jsstring where
  "txt_running =
     [0x2705, 0x20, 0x8FD0, 0x884C, 0x4E2D]"

definition txt_stopped :: jsstring where
  "txt_stopped =
     [0x23F9, 0xFE0F, 0x20, 0x5DF2, 0x505C, 0x6B62]"

definition txt_status_cpu :: jsstring where
  "txt_status_cpu =
     [0x20, 0x20, 0x20, 0x43, 0x50, 0x55, 0x3A, 0x20]"

definition txt_status_mem :: jsstring where
  "txt_status_mem =
     [0x20, 0x20, 0x20, 0x5185, 0x5B58, 0x3A, 0x20]"

definition txt_status_pids :: jsstring where
  "txt_status_pids =
     [0x20, 0x20, 0x20, 0x8FDB, 0x7A0B, 0x3A, 0x20]"

definition txt_status_disk :: jsstring where
  "txt_status_disk =
     [0x20, 0x20, 0x20, 0x78C1, 0x76D8, 0x3A, 0x20]"

definition txt_cleared :: jsstring where
  "txt_cleared =
     [0x2705, 0x20, 0x4F1A, 0x8BDD, 0x5DF2, 0x6E05, 0x9664, 0xFF0C, 0x4E0B, 0x6B21,
      0x5BF9, 0x8BDD, 0x5C06, 0x5F00, 0x59CB, 0x65B0, 0x7684, 0x4E0A, 0x4E0B, 0x6587]"

definition usage_allow :: jsstring where
  "usage_allow =
     [0x7528, 0x6CD5, 0x3A, 0x20, 0x2F, 0x61, 0x6C, 0x6C, 0x6F, 0x77, 0x20, 0x6635,
      0x79F0, 0x20, 0x5B, 0x74, 0x72, 0x75, 0x73, 0x74, 0x65, 0x64, 0x7C, 0x6E, 0x6F,
      0x72, 0x6D, 0x61, 0x6C, 0x5D]"

definition usage_block :: jsstring where
  "usage_block =
     [0x7528, 0x6CD5, 0x3A, 0x20, 0x2F, 0x62, 0x6C, 0x6F, 0x63, 0x6B, 0x20, 0x6635,
      0x79F0]"

definition usage_kill :: jsstring where
  "usage_kill =
     [0x7528, 0x6CD5, 0x3A, 0x20, 0x2F, 0x6B, 0x69, 0x6C, 0x6C, 0x20, 0x6635, 0x79F0]"

definition usage_restart :: jsstring where
  "usage_restart =
     [0x7528, 0x6CD5, 0x3A, 0x20, 0x2F, 0x72, 0x65, 0x73, 0x74, 0x61, 0x72, 0x74,
      0x20, 0x6635, 0x79F0]"

definition usage_destroy :: jsstring where
  "usage_destroy =
     [0x7528, 0x6CD5, 0x3A, 0x20, 0x2F, 0x64, 0x65, 0x73, 0x74, 0x72, 0x6F, 0x79,
      0x20, 0x6635, 0x79F0]"

definition usage_rebuild :: jsstring where
  "usage_rebuild =
     [0x7528, 0x6CD5, 0x3A, 0x20, 0x2F, 0x72, 0x65, 0x62, 0x75, 0x69, 0x6C, 0x64,
      0x20, 0x6635, 0x79F0]"

definition txt_invalid_level :: jsstring where
  "txt_invalid_level =
     [0x274C, 0x20, 0x65E0, 0x6548, 0x6743, 0x9650, 0x7B49, 0x7EA7, 0xFF0C, 0x53EF,
      0x9009, 0x3A, 0x20, 0x74, 0x72, 0x75, 0x73, 0x74, 0x65, 0x64, 0x2C, 0x20, 0x6E,
      0x6F, 0x72, 0x6D, 0x61, 0x6C, 0x2C, 0x20, 0x61, 0x64, 0x6D, 0x69, 0x6E]"

definition txt_not_found :: jsstring where
  "txt_not_found =
     [0x274C, 0x20, 0x672A, 0x627E, 0x5230, 0x20, 0x22]"

definition txt_quote :: jsstring where
  "txt_quote =
     [0x22]"

definition txt_must_message_first :: jsstring where
  "txt_must_message_first =
     [0x22, 0xFF0C, 0x8BE5, 0x597D, 0x53CB, 0x9700, 0x8981, 0x5148, 0x53D1, 0x4E00,
      0x6761, 0x6D88, 0x606F]"

definition txt_many_head :: jsstring where
  "txt_many_head =
     [0x627E, 0x5230, 0x591A, 0x4E2A, 0x5339, 0x914D, 0x3A, 0xA]"

definition txt_many_foot :: jsstring where
  "txt_many_foot =
     [0xA, 0x8BF7, 0x7CBE, 0x786E, 0x6307, 0x5B9A]"

definition txt_many :: jsstring where
  "txt_many =
     [0x627E, 0x5230, 0x591A, 0x4E2A, 0x5339, 0x914D, 0xFF0C, 0x8BF7, 0x7CBE, 0x786E,
      0x6307, 0x5B9A]"

definition txt_check :: jsstring where
  "txt_check =
     [0x2705, 0x20]"

definition txt_arrow :: jsstring where
  "txt_arrow =
     [0x20, 0x2192, 0x20]"

definition txt_blocked_head :: jsstring where
  "txt_blocked_head =
     [0xD83D, 0xDEAB, 0x20, 0x5DF2, 0x62C9, 0x9ED1, 0x20]"

definition txt_blocked_foot :: jsstring where
  "txt_blocked_foot =
     [0xFF0C, 0x5BB9, 0x5668, 0x5DF2, 0x9500, 0x6BC1]"

definition txt_no_friends :: jsstring where
  "txt_no_friends =
     [0x6682, 0x65E0, 0x6388, 0x6743, 0x597D, 0x53CB]"

definition txt_list_head :: jsstring where
  "txt_list_head =
     [0xD83D, 0xDC65, 0x20, 0x597D, 0x53CB, 0x5217, 0x8868, 0x3A, 0xA]"

definition icon_admin :: jsstring where
  "icon_admin =
     [0xD83D, 0xDC51]"

definition icon_trusted :: jsstring where
  "icon_trusted =
     [0x2B50]"

definition icon_normal :: jsstring where
  "icon_normal =
     [0xD83D, 0xDC64]"

definition icon_blocked :: jsstring where
  "icon_blocked =
     [0xD83D, 0xDEAB]"

definition txt_no_logs :: jsstring where
  "txt_no_logs =
     [0x6682, 0x65E0, 0x65E5, 0x5FD7]"

definition icon_in :: jsstring where
  "icon_in =
     [0xD83D, 0xDCE9]"

definition icon_out :: jsstring where
  "icon_out =
     [0xD83D, 0xDCE4]"

definition txt_killed_head :: jsstring where
  "txt_killed_head =
     [0x2705, 0x20, 0x5DF2, 0x7EC8, 0x6B62, 0x20]"

definition txt_killed_foot :: jsstring where
  "txt_killed_foot =
     [0x20, 0x7684, 0x8FDB, 0x7A0B]"

definition txt_nothing_running :: jsstring where
  "txt_nothing_running =
     [0x6CA1, 0x6709, 0x8FD0, 0x884C, 0x4E2D, 0x7684, 0x8FDB, 0x7A0B]"

definition txt_no_containers :: jsstring where
  "txt_no_containers =
     [0xD83D, 0xDC33, 0x20, 0x6682, 0x65E0, 0x8FD0, 0x884C, 0x4E2D, 0x7684, 0x5BB9,
      0x5668]"

definition txt_containers_head :: jsstring where
  "txt_containers_head =
     [0xD83D, 0xDC33, 0x20, 0x5BB9, 0x5668, 0x5217, 0x8868, 0x3A, 0xA]"

definition icon_up :: jsstring where
  "icon_up =
     [0x2705]"

definition icon_down :: jsstring where
  "icon_down =
     [0x23F9, 0xFE0F]"

definition txt_restarted_head :: jsstring where
  "txt_restarted_head =
     [0xD83D, 0xDD04, 0x20, 0x5DF2, 0x91CD, 0x542F, 0x20]"

definition txt_restarted_foot :: jsstring where
  "txt_restarted_foot =
     [0x20, 0x7684, 0x5BB9, 0x5668, 0xFF08, 0x4E0B, 0x6B21, 0x53D1, 0x6D88, 0x606F,
      0x81EA, 0x52A8, 0x542F, 0x52A8, 0xFF09]"

definition txt_destroyed_head :: jsstring where
  "txt_destroyed_head =
     [0xD83D, 0xDDD1, 0xFE0F, 0x20, 0x5DF2, 0x9500, 0x6BC1, 0x20]"

definition txt_destroyed_foot :: jsstring where
  "txt_destroyed_foot =
     [0x20, 0x7684, 0x5BB9, 0x5668, 0xFF08, 0x6570, 0x636E, 0x4FDD, 0x7559, 0xFF0C,
      0x4E0B, 0x6B21, 0x53D1, 0x6D88, 0x606F, 0x81EA, 0x52A8, 0x91CD, 0x5EFA, 0xFF09]"

definition txt_rebuilt_head :: jsstring where
  "txt_rebuilt_head =
     [0xD83D, 0xDD28, 0x20, 0x5DF2, 0x91CD, 0x5EFA, 0x20]"

definition txt_rebuilt_foot :: jsstring where
  "txt_rebuilt_foot =
     [0x20, 0x7684, 0x5BB9, 0x5668]"

definition txt_stopall_head :: jsstring where
  "txt_stopall_head =
     [0x23F9, 0xFE0F, 0x20, 0x5DF2, 0x505C, 0x6B62, 0x5168, 0x90E8, 0x20]"

definition txt_stopall_foot :: jsstring where
  "txt_stopall_foot =
     [0x20, 0x4E2A, 0x5BB9, 0x5668]"


subsection \<open>The command table\<close>

datatype handler =
    CmdHelp | CmdStatus | CmdClear | CmdAllow | CmdBlock | CmdList | CmdLogs | CmdKill
  | CmdContainers | CmdRestart | CmdDestroy | CmdRebuild | CmdStopAll

record command =
  command_name :: jsstring
  command_permission :: jsstring
  command_description :: jsstring
  command_handler :: handler

text \<open>\<open>registerBuiltinCommands\<close>: the entries of the map, in the order they are set.\<close>

definition commands :: "command list" where
  "commands =
     [\<lparr>command_name = js ''/help'', command_permission = js ''normal'',
       command_description = desc_help, command_handler = CmdHelp\<rparr>,
      \<lparr>command_name = js ''/status'', command_permission = js ''normal'',
       command_description = desc_status, command_handler = CmdStatus\<rparr>,
      \<lparr>command_name = js ''/clear'', command_permission = js ''normal'',
       command_description = desc_clear, command_handler = CmdClear\<rparr>,
      \<lparr>command_name = js ''/allow'', command_permission = js ''admin'',
       command_description = desc_allow, command_handler = CmdAllow\<rparr>,
      \<lparr>command_name = js ''/block'', command_permission = js ''admin'',
       command_description = desc_block, command_handler = CmdBlock\<rparr>,
      \<lparr>command_name = js ''/list'', command_permission = js ''admin'',
       command_description = desc_list, command_handler = CmdList\<rparr>,
      \<lparr>command_name = js ''/logs'', command_permission = js ''admin'',
       command_description = desc_logs, command_handler = CmdLogs\<rparr>,
      \<lparr>command_name = js ''/kill'', command_permission = js ''admin'',
       command_description = desc_kill, command_handler = CmdKill\<rparr>,
      \<lparr>command_name = js ''/containers'', command_permission = js ''admin'',
       command_description = desc_containers, command_handler = CmdContainers\<rparr>,
      \<lparr>command_name = js ''/restart'', command_permission = js ''admin'',
       command_description = desc_restart, command_handler = CmdRestart\<rparr>,
      \<lparr>command_name = js ''/destroy'', command_permission = js ''admin'',
       command_description = desc_destroy, command_handler = CmdDestroy\<rparr>,
      \<lparr>command_name = js ''/rebuild'', command_permission = js ''admin'',
       command_description = desc_rebuild, command_handler = CmdRebuild\<rparr>,
      \<lparr>command_name = js ''/stopall'', command_permission = js ''admin'',
       command_description = desc_stopall, command_handler = CmdStopAll\<rparr>]"

text \<open>
  \<open>permLevels[p]\<close> is \<open>undefined\<close> for a string that is not one of the four tiers,
  and a comparison with \<open>undefined\<close> is false.
\<close>

definition permLevel :: "jsstring \<Rightarrow> int option" where
  "permLevel p =
     (if p = js ''admin'' then Some 3
      else if p = js ''trusted'' then Some 2
      else if p = js ''normal'' then Some 1
      else if p = js ''blocked'' then Some 0
      else None)"

definition js_less :: "int option \<Rightarrow> int option \<Rightarrow> bool" where
  "js_less a b = (case a of None \<Rightarrow> False | Some x \<Rightarrow> (case b of None \<Rightarrow> False | Some y \<Rightarrow> x < y))"

definition js_greater_eq :: "int option \<Rightarrow> int option \<Rightarrow> bool" where
  "js_greater_eq a b =
     (case a of None \<Rightarrow> False | Some x \<Rightarrow> (case b of None \<Rightarrow> False | Some y \<Rightarrow> y \<le> x))"

text \<open>\<open>s.split(/\s+/)\<close>: the parts between runs of white space.\<close>

function split_ws :: "jsstring \<Rightarrow> jsstring list" where
  "split_ws [] = [[]]"
| "split_ws (x # xs) =
     (if js_whitespace x then [] # split_ws (dropWhile js_whitespace xs)
      else (case split_ws xs of [] \<Rightarrow> [[x]] | p # ps \<Rightarrow> (x # p) # ps))"
  by pat_completeness auto
termination
  by (relation "measure length") (auto simp: le_imp_less_Suc length_dropWhile_le)

definition print_null :: "jsstring option \<Rightarrow> jsstring" where
  "print_null a = (case a of None \<Rightarrow> js ''null'' | Some s \<Rightarrow> s)"

subsection \<open>The handlers\<close>

definition cmdHelp :: "jsstring \<Rightarrow> jsstring" where
  "cmdHelp perm =
     join [newline]
       ([txt_help_head]
        @ map (\<lambda>c. command_name c @ js '' - '' @ command_description c)
            (filter (\<lambda>c. js_greater_eq (permLevel perm) (permLevel (command_permission c)))
               commands)
        @ [txt_help_foot])"

definition cmdStatus :: "'w runtime \<Rightarrow> config \<Rightarrow> jsstring \<Rightarrow> ('w, jsstring) action" where
  "cmdStatus rt cfg w =
     andThen get_store (\<lambda>db.
     andThen (getContainerStatus rt cfg w) (\<lambda>container.
     return
       (join [newline]
          ([txt_status_head,
            txt_status_user @
              (case friendsDB_get db w of
                 None \<Rightarrow> txt_unknown
               | Some friend \<Rightarrow>
                   or_default (remark_name friend) (or_default (nickname friend) txt_unknown)),
            txt_status_perm @
              (case friendsDB_get db w of
                 None \<Rightarrow> txt_none
               | Some friend \<Rightarrow> or_string (permission friend) txt_none),
            txt_status_session @
              (case sessionsDB_getActive db w of
                 None \<Rightarrow> txt_none
               | Some sess \<Rightarrow> txt_active @ String_of_int (message_count sess) @ txt_messages),
            [],
            txt_status_container @ status_name container,
            txt_status_state @ (if status_running container then txt_running else txt_stopped)]
           @ (case status_stats container of
                None \<Rightarrow> []
              | Some stats \<Rightarrow>
                  [txt_status_cpu @ stats_cpu stats,
                   txt_status_mem @ stats_mem stats,
                   txt_status_pids @ stats_pids stats])
           @ (if truthy (status_disk container)
              then [txt_status_disk @ or_default (status_disk container) []]
              else [])))))"

definition cmdClear :: "'w runtime \<Rightarrow> config \<Rightarrow> jsstring \<Rightarrow> ('w, jsstring) action" where
  "cmdClear rt cfg w = andThen (clearSession rt cfg w False) (\<lambda>_. return txt_cleared)"

definition cmdAllow :: "jsstring \<Rightarrow> ('w, jsstring) action" where
  "cmdAllow args =
     (if args = [] then return usage_allow
      else
        (let parts = split_ws args;
             searchName = or_default (part parts 0) [];
             level = or_default (part parts 1) (js ''trusted'')
         in if level \<notin> set [js ''trusted'', js ''normal'', js ''admin'']
            then return txt_invalid_level
            else
              andThen get_store (\<lambda>db.
              case friendsDB_findByNickname db searchName of
                [] \<Rightarrow> return (txt_not_found @ searchName @ txt_must_message_first)
              | [friend] \<Rightarrow>
                  andThen (run_store (\<lambda>db. friendsDB_setPermission db (wxid friend) level)) (\<lambda>_.
                  return (txt_check @ print_null (nickname friend) @ txt_arrow @ level))
              | matches \<Rightarrow>
                  return
                    (txt_many_head
                     @ join [newline]
                         (map (\<lambda>f. print_null (nickname f) @ js ''('' @ wxid f @ js '')'')
                            matches)
                     @ txt_many_foot))))"

definition cmdBlock :: "'w runtime \<Rightarrow> config \<Rightarrow> jsstring \<Rightarrow> ('w, jsstring) action" where
  "cmdBlock rt cfg args =
     (if args = [] then return usage_block
      else
        andThen get_store (\<lambda>db.
        case friendsDB_findByNickname db (trim args) of
          [] \<Rightarrow> return (txt_not_found @ args @ txt_quote)
        | [friend] \<Rightarrow>
            andThen (run_store (\<lambda>db. friendsDB_setPermission db (wxid friend) (js ''blocked'')))
              (\<lambda>_.
            andThen (executor_destroyContainer rt cfg (wxid friend)) (\<lambda>_.
            return (txt_blocked_head @ print_null (nickname friend) @ txt_blocked_foot)))
        | matches \<Rightarrow> return txt_many))"

text \<open>
  \<open>cmdList\<close>: the friends of each tier, in the order \<open>listAll\<close> gave them; the
  heading of a tier is its sign and its name in capitals.
\<close>

definition list_group :: "friend list \<Rightarrow> jsstring \<Rightarrow> jsstring \<Rightarrow> jsstring \<Rightarrow> jsstring list" where
  "list_group all perm icon heading =
     (case filter (\<lambda>f. permission f = perm) all of
        [] \<Rightarrow> []
      | members \<Rightarrow>
          [icon @ js '' '' @ heading @ js '':'']
          @ map (\<lambda>f. js ''  '' @ displayName_of (remark_name f) (nickname f) (wxid f)) members
          @ [[]])"

definition cmdList :: "('w, jsstring) action" where
  "cmdList =
     andThen get_store (\<lambda>db.
     case friendsDB_listAll db of
       [] \<Rightarrow> return txt_no_friends
     | all \<Rightarrow>
         return
           (join [newline]
              ([txt_list_head]
               @ list_group all (js ''admin'') icon_admin (js ''ADMIN'')
               @ list_group all (js ''trusted'') icon_trusted (js ''TRUSTED'')
               @ list_group all (js ''normal'') icon_normal (js ''NORMAL'')
               @ list_group all (js ''blocked'') icon_blocked (js ''BLOCKED''))))"

definition formatLogs :: "audit_entry list \<Rightarrow> jsstring" where
  "formatLogs logs =
     (case logs of
        [] \<Rightarrow> txt_no_logs
      | _ \<Rightarrow>
          join [newline]
            (map (\<lambda>l. (if direction l = js ''in'' then icon_in else icon_out)
                      @ js '' ['' @ or_default (part (split_on 0x20 (timestamp l)) 1) (timestamp l)
                      @ js ''] '' @ audit_nickname l @ js '': '' @ substring (message l) 0 60)
               logs))"

definition cmdLogs :: "jsstring \<Rightarrow> ('w, jsstring) action" where
  "cmdLogs args =
     andThen get_store (\<lambda>db.
     if args = [] then return (formatLogs (auditDB_getRecent db 20))
     else
       (case friendsDB_findByNickname db (trim args) of
          [] \<Rightarrow> return (txt_not_found @ args @ txt_quote)
        | friend # _ \<Rightarrow> return (formatLogs (auditDB_getByUser db (wxid friend) 20))))"

definition cmdKill :: "'w runtime \<Rightarrow> config \<Rightarrow> jsstring \<Rightarrow> ('w, jsstring) action" where
  "cmdKill rt cfg args =
     (if args = [] then return usage_kill
      else
        andThen get_store (\<lambda>db.
        case friendsDB_findByNickname db (trim args) of
          [] \<Rightarrow> return (txt_not_found @ args @ txt_quote)
        | friend # _ \<Rightarrow>
            andThen (killProcess rt cfg (wxid friend)) (\<lambda>killed.
            return (if killed
                    then txt_killed_head @ print_null (nickname friend) @ txt_killed_foot
                    else txt_nothing_running))))"

definition container_lines :: "database \<Rightarrow> container_info \<Rightarrow> jsstring list" where
  "container_lines db c =
     [(if (case info_status c of None \<Rightarrow> False | Some st \<Rightarrow> js_includes st (js ''Up''))
       then icon_up else icon_down)
      @ js '' ''
      @ (case (if truthy (info_wxid c) then friendsDB_get db (or_default (info_wxid c) []) else None) of
           None \<Rightarrow> or_default (info_wxid c) txt_unknown
         | Some friend \<Rightarrow>
             or_default (remark_name friend)
               (or_default (nickname friend) (or_default (info_wxid c) txt_unknown)))
      @ js '' ['' @ print_undefined (info_permission c) @ js '']'',
      js ''   '' @ print_undefined (info_name c) @ js '': '' @ print_undefined (info_status c)]"

definition cmdContainers :: "'w runtime \<Rightarrow> ('w, jsstring) action" where
  "cmdContainers rt =
     andThen (listContainers rt) (\<lambda>containers.
     andThen get_store (\<lambda>db.
     case containers of
       [] \<Rightarrow> return txt_no_containers
     | _ \<Rightarrow> return (join [newline] ([txt_containers_head] @ concat (map (container_lines db) containers)))))"

definition cmdRestart :: "'w runtime \<Rightarrow> config \<Rightarrow> jsstring \<Rightarrow> ('w, jsstring) action" where
  "cmdRestart rt cfg args =
     (if args = [] then return usage_restart
      else
        andThen get_store (\<lambda>db.
        case friendsDB_findByNickname db (trim args) of
          [] \<Rightarrow> return (txt_not_found @ args @ txt_quote)
        | friend # _ \<Rightarrow>
            andThen (stopContainer rt cfg (wxid friend)) (\<lambda>_.
            andThen (clearSession rt cfg (wxid friend) False) (\<lambda>_.
            return (txt_restarted_head @ print_null (nickname friend) @ txt_restarted_foot)))))"

definition cmdDestroy :: "'w runtime \<Rightarrow> config \<Rightarrow> jsstring \<Rightarrow> ('w, jsstring) action" where
  "cmdDestroy rt cfg args =
     (if args = [] then return usage_destroy
      else
        andThen get_store (\<lambda>db.
        case friendsDB_findByNickname db (trim args) of
          [] \<Rightarrow> return (txt_not_found @ args @ txt_quote)
        | friend # _ \<Rightarrow>
            andThen (executor_destroyContainer rt cfg (wxid friend)) (\<lambda>_.
            return (txt_destroyed_head @ print_null (nickname friend) @ txt_destroyed_foot))))"

text \<open>
  \<open>cmdRebuild\<close> awaits \<open>rebuildContainer\<close> outside any \<open>try\<close>: an exception of
  the container manager leaves the handler as an exception.
\<close>

definition cmdRebuild :: "'w runtime \<Rightarrow> config \<Rightarrow> jsstring \<Rightarrow> ('w, jsstring) action" where
  "cmdRebuild rt cfg args =
     (if args = [] then return usage_rebuild
      else
        andThen get_store (\<lambda>db.
        case friendsDB_findByNickname db (trim args) of
          [] \<Rightarrow> return (txt_not_found @ args @ txt_quote)
        | friend # _ \<Rightarrow>
            andThen (executor_rebuildContainer rt cfg (wxid friend) (permission friend)) (\<lambda>_.
            return (txt_rebuilt_head @ print_null (nickname friend) @ txt_rebuilt_foot))))"

fun stop_each :: "'w runtime \<Rightarrow> config \<Rightarrow> container_info list \<Rightarrow> ('w, unit) action" where
  "stop_each rt cfg [] = return ()"
| "stop_each rt cfg (c # cs) =
     andThen (if truthy (info_wxid c)
              then andThen (stopContainer rt cfg (or_default (info_wxid c) [])) (\<lambda>_. return ())
              else return ()) (\<lambda>_.
     stop_each rt cfg cs)"

definition cmdStopAll :: "'w runtime \<Rightarrow> config \<Rightarrow> ('w, jsstring) action" where
  "cmdStopAll rt cfg =
     andThen (listContainers rt) (\<lambda>containers.
     andThen (stop_each rt cfg containers) (\<lambda>_.
     return (txt_stopall_head @ String_of_int (int (length containers)) @ txt_stopall_foot)))"

definition run_handler ::
  "'w runtime \<Rightarrow> config \<Rightarrow> handler \<Rightarrow> jsstring \<Rightarrow> jsstring \<Rightarrow> jsstring \<Rightarrow> ('w, jsstring) action" where
  "run_handler rt cfg h w perm args =
     (case h of
        CmdHelp \<Rightarrow> return (cmdHelp perm)
      | CmdStatus \<Rightarrow> cmdStatus rt cfg w
      | CmdClear \<Rightarrow> cmdClear rt cfg w
      | CmdAllow \<Rightarrow> cmdAllow args
      | CmdBlock \<Rightarrow> cmdBlock rt cfg args
      | CmdList \<Rightarrow> cmdList
      | CmdLogs \<Rightarrow> cmdLogs args
      | CmdKill \<Rightarrow> cmdKill rt cfg args
      | CmdContainers \<Rightarrow> cmdContainers rt
      | CmdRestart \<Rightarrow> cmdRestart rt cfg args
      | CmdDestroy \<Rightarrow> cmdDestroy rt cfg args
      | CmdRebuild \<Rightarrow> cmdRebuild rt cfg args
      | CmdStopAll \<Rightarrow> cmdStopAll rt cfg)"

subsection \<open>Dispatch\<close>

text \<open>
  \<open>handleCommand\<close> answers \<open>None\<close> (\<open>null\<close>) for a word that is no command.
\<close>

definition handleCommand ::
  "'w runtime \<Rightarrow> config \<Rightarrow> jsstring \<Rightarrow> jsstring \<Rightarrow> jsstring \<Rightarrow> ('w, jsstring option) action" where
  "handleCommand rt cfg w perm msg =
     (let parts = split_ws (trim msg);
          cmd = toLowerCase rt (or_default (part parts 0) []);
          args = join (js '' '') (drop 1 parts)
      in case find (\<lambda>c. command_name c = cmd) commands of
           None \<Rightarrow> return None
         | Some c \<Rightarrow>
             if js_less (permLevel perm) (permLevel (command_permission c))
             then return (Some txt_insufficient)
             else andThen (run_handler rt cfg (command_handler c) w perm args) (\<lambda>r.
                  return (Some r)))"

record contact =
  contact_wxid :: jsstring
  contact_nickname :: jsstring
  contact_remarkName :: jsstring

text \<open>
  The last step of \<open>handleMessage\<close>: the security filter, outside the \<open>try\<close>, then
  \<open>execute\<close> and the egress audit row inside it.
\<close>

definition dispatch ::
  "'w runtime \<Rightarrow> config \<Rightarrow> jsstring \<Rightarrow> jsstring \<Rightarrow> jsstring \<Rightarrow> jsstring
   \<Rightarrow> ('w, jsstring option) action" where
  "dispatch rt cfg w displayName perm msg =
     (case securityCheck rt cfg msg perm of
        Inl e \<Rightarrow> throw e
      | Inr (Some reason) \<Rightarrow> return (Some (txt_warning @ reason))
      | Inr None \<Rightarrow>
          andThen get_store (\<lambda>db.
          tryCatch
            (andThen (execute rt cfg w (friendsDB_get db w) msg) (\<lambda>response.
             andThen (now_text rt) (\<lambda>now.
             andThen (run_store (\<lambda>db. auditDB_log now db w displayName (js ''out'')
                                        (substring response 0 500))) (\<lambda>_.
             return (Some response)))))
            (\<lambda>error. return (Some txt_router_error))))"

text \<open>
  The steps of \<open>handleMessage\<close> after admission: a message that starts with \<open>/\<close>
  goes to \<open>handleCommand\<close>, whose reply, if there is one, is written to the audit
  log and returned; everything else is dispatched.
\<close>

definition checkRate :: "'w runtime \<Rightarrow> config \<Rightarrow> jsstring \<Rightarrow> ('w, jsstring + unit) action" where
  "checkRate rt cfg w s =
     (let (r, db) = rateLimitDB_checkAndIncrement (date_now rt (host s)) (store s) w
                      (max_per_minute cfg) (max_per_day cfg)
      in (Inr r, s\<lparr>store := db\<rparr>))"

definition respond ::
  "'w runtime \<Rightarrow> config \<Rightarrow> jsstring \<Rightarrow> jsstring \<Rightarrow> jsstring \<Rightarrow> jsstring
   \<Rightarrow> ('w, jsstring option) action" where
  "respond rt cfg w displayName perm msg =
     (if startsWith msg (js ''/'')
      then
        andThen (handleCommand rt cfg w perm msg) (\<lambda>response.
        case response of
          None \<Rightarrow> dispatch rt cfg w displayName perm msg
        | Some r \<Rightarrow>
            andThen (now_text rt) (\<lambda>now.
            andThen (run_store (\<lambda>db. auditDB_log now db w displayName (js ''out'')
                                       (substring r 0 200))) (\<lambda>_.
            return (Some r))))
      else dispatch rt cfg w displayName perm msg)"

text \<open>
  \<open>handleMessage\<close>, in two parts: \<open>ingress\<close> writes the audit row and registers the
  friend; \<open>admit\<close> is the rest, from \<open>getEffectivePermission\<close> on. \<open>Inr None\<close> is
  the return value \<open>null\<close>, \<open>Inr (Some r)\<close> the reply \<open>r\<close>, and \<open>Inl e\<close> an
  exception that leaves \<open>handleMessage\<close> (its promise is rejected).
\<close>

definition displayName_of_contact :: "contact \<Rightarrow> jsstring" where
  "displayName_of_contact c =
     or_string (contact_remarkName c) (or_string (contact_nickname c) (contact_wxid c))"

definition ingress :: "'w runtime \<Rightarrow> config \<Rightarrow> contact \<Rightarrow> jsstring \<Rightarrow> ('w, unit) action" where
  "ingress rt cfg c msg =
     andThen (now_text rt) (\<lambda>now.
     andThen (run_store (\<lambda>db. auditDB_log now db (contact_wxid c) (displayName_of_contact c)
                (js ''in'') (if log_message_content cfg then msg else txt_hidden))) (\<lambda>_.
     andThen (now_text rt) (\<lambda>now.
     run_store (\<lambda>db. ensureFriendRegistered cfg now db (contact_wxid c) (contact_nickname c)
                (contact_remarkName c)))))"

definition admit ::
  "'w runtime \<Rightarrow> config \<Rightarrow> contact \<Rightarrow> jsstring \<Rightarrow> ('w, jsstring option) action" where
  "admit rt cfg c msg =
     andThen get_store (\<lambda>db.
     let perm = getEffectivePermission cfg db (contact_wxid c)
     in if perm = js ''blocked'' then return None
        else if perm = [] then
          return (if notify_unauthorized cfg then Some (unauthorized_message cfg) else None)
        else
          andThen (checkRate rt cfg (contact_wxid c)) (\<lambda>rateCheck.
          case rateCheck of
            Inl reason \<Rightarrow> return (Some (txt_warning @ reason))
          | Inr _ \<Rightarrow> respond rt cfg (contact_wxid c) (displayName_of_contact c) perm msg))"

definition handleMessage ::
  "'w runtime \<Rightarrow> config \<Rightarrow> contact \<Rightarrow> jsstring \<Rightarrow> ('w, jsstring option) action" where
  "handleMessage rt cfg c msg = andThen (ingress rt cfg c msg) (\<lambda>_. admit rt cfg c msg)"

section \<open>States used in the examples\<close>

text \<open>
  A store with one friend, \<open>u1\<close> (Alice), who was given the tier \<open>trusted\<close>, and
  the empty store.
\<close>

definition alice_row :: friend where
  "alice_row =
     \<lparr>wxid = js ''u1'',
      nickname = Some (js ''Alice''),
      remark_name = Some [],
      permission = js ''trusted'',
      added_at = js ''2026-11-01 08:00:00'',
      added_by = None,
      friend_notes = None\<rparr>"

definition db_alice :: database where
  "db_alice = \<lparr>friends = [alice_row], sessions = [], audit_log = [], rate_limits = []\<rparr>"

definition db_empty :: database where
  "db_empty = \<lparr>friends = [], sessions = [], audit_log = [], rate_limits = []\<rparr>"


text \<open>
  A host on which only \<open>CLAUDE_CODE_OAUTH_TOKEN\<close> and \<open>HOME\<close> are set, and on which
  the engine cannot be reached: every \<open>docker\<close> command fails, directories can be
  made. The clock stands at 2026-11-02 10:00:00 UTC. The other built-ins are given
  on the strings the examples use: \<open>Date\<close> reads one timestamp and takes every
  other string for an invalid date, no pattern matches, \<open>toLowerCase\<close> maps the
  ASCII letters, \<open>path.join\<close> puts a slash between its arguments. No other task
  runs.
\<close>

definition oauth_only :: "jsstring \<Rightarrow> jsstring option" where
  "oauth_only k =
     (if k = js ''CLAUDE_CODE_OAUTH_TOKEN'' then Some (js ''sk-ant-oat01-abc'')
      else if k = js ''HOME'' then Some (js ''/root'')
      else None)"

definition engine_down :: "unit runtime" where
  "engine_down =
     \<lparr>date_now = (\<lambda>_. 1793613600000),
      current_timestamp = (\<lambda>_. js ''2026-11-02 10:00:00''),
      date_getTime =
        (\<lambda>t. if t = js ''2026-11-02 09:30:00'' then Some 1793611800000 else None),
      uuidv4 = (\<lambda>h. (js ''0b1c2d3e-0000-4000-8000-000000000001'', h)),
      regexp_test = (\<lambda>p m. Some False),
      session_match = (\<lambda>_. None),
      toLowerCase = map ascii_lower,
      process_env = oauth_only,
      path_join = (\<lambda>a b. a @ js ''/'' @ b),
      json_parse_stats = (\<lambda>_. None),
      execFile_docker = (\<lambda>h args. (Inl (js ''Cannot connect to the Docker daemon''), h)),
      spawn_docker = (\<lambda>h args ms. (ErrorEvent (js ''spawn docker ENOENT''), h)),
      mkdirSync = (\<lambda>h p. (True, h)),
      meanwhile = (\<lambda>s. s)\<rparr>"

text \<open>
  The same host with the engine up: every \<open>docker\<close> command succeeds and prints
  \<open>true\<close> (so the container exists and runs), and the Claude CLI exits with code
  0, the given text on its standard output and nothing on its standard error.
\<close>

definition engine_up :: "jsstring \<Rightarrow> unit runtime" where
  "engine_up stdout =
     engine_down
       \<lparr>execFile_docker := (\<lambda>h args. (Inr (js ''true''), h)),
        spawn_docker := (\<lambda>h args ms. (Close (Some 0) stdout [], h))\<rparr>"

text \<open>
  A run time on which a second message of Alice arrives whenever a process of the
  host is pending, and is handed to \<open>execute\<close>.
\<close>

definition second_message :: "unit runtime \<Rightarrow> unit runtime" where
  "second_message rt =
     rt\<lparr>meanwhile :=
          (\<lambda>s. snd (execute rt (loadConfig empty_yaml) (js ''u1'') (Some alice_row)
                       (js ''again'') s))\<rparr>"

text \<open>
  The states of the examples: Alice's store with nothing in flight; the same with
  Alice's message in flight; and Alice's store with a session whose \<open>last_active\<close>
  is no timestamp. \<open>boss\<close> is the contact \<open>admin0\<close>, the administrator of
  \<open>config_admin0\<close>.
\<close>

definition state_alice :: "unit state" where
  "state_alice = \<lparr>store = db_alice, activeTasks = {}, host = (), trace = []\<rparr>"

definition state_alice_busy :: "unit state" where
  "state_alice_busy = \<lparr>store = db_alice, activeTasks = {js ''u1''}, host = (), trace = []\<rparr>"

definition odd_session :: session where
  "odd_session =
     \<lparr>session_id = js ''0b1c2d3e-0000-4000-8000-000000000000'',
      session_wxid = js ''u1'',
      claude_session = None,
      created_at = js ''2026-10-01 08:00:00'',
      last_active = js ''not-a-timestamp'',
      message_count = 3\<rparr>"

definition state_odd_session :: "unit state" where
  "state_odd_session =
     \<lparr>store = db_alice\<lparr>sessions := [odd_session]\<rparr>, activeTasks = {}, host = (), trace = []\<rparr>"

definition config_admin0 :: config where
  "config_admin0 = loadConfig (empty_yaml\<lparr>yaml_admin_wxid := Some (js ''admin0'')\<rparr>)"

definition boss :: contact where
  "boss =
     \<lparr>contact_wxid = js ''admin0'', contact_nickname = js ''Boss'', contact_remarkName = []\<rparr>"


section \<open>Call sequences of the rate limiter\<close>

text \<open>
  \<open>check_all\<close> runs \<open>checkAndIncrement\<close> for one user, with fixed limits, at each of
  the given times in turn (the clock need not advance), and returns the store at
  the end with the times of the calls that were admitted. The counts read off the
  admitted calls and off the store: the calls admitted in minute \<open>k\<close> and on day
  \<open>d\<close>, the user's counter for minute \<open>k\<close>, the sum of the user's counters of day
  \<open>d\<close>.
\<close>

fun check_all :: "database \<Rightarrow> jsstring \<Rightarrow> int \<Rightarrow> int \<Rightarrow> int list \<Rightarrow> database \<times> int list" where
  "check_all db w maxPerMinute maxPerDay [] = (db, [])"
| "check_all db w maxPerMinute maxPerDay (t # ts) =
     (case rateLimitDB_checkAndIncrement t db w maxPerMinute maxPerDay of
        (Inl reason, db') \<Rightarrow> check_all db' w maxPerMinute maxPerDay ts
      | (Inr u, db') \<Rightarrow>
          (case check_all db' w maxPerMinute maxPerDay ts of
             (final, admitted) \<Rightarrow> (final, t # admitted)))"

definition admitted_in_minute :: "int list \<Rightarrow> int \<Rightarrow> int" where
  "admitted_in_minute admitted k = int (length (filter (\<lambda>t. t div 60000 = k) admitted))"

definition admitted_on_day :: "int list \<Rightarrow> int \<Rightarrow> int" where
  "admitted_on_day admitted d = int (length (filter (\<lambda>t. t div 86400000 = d) admitted))"

definition minute_count :: "database \<Rightarrow> jsstring \<Rightarrow> int \<Rightarrow> int" where
  "minute_count db w k = (case minuteRow db w k of None \<Rightarrow> 0 | Some r \<Rightarrow> request_count r)"

definition day_total :: "database \<Rightarrow> jsstring \<Rightarrow> int \<Rightarrow> int" where
  "day_total db w d =
     sum_list (map request_count
       (filter (\<lambda>r. rate_wxid r = w \<and> window_start r div 1440 = d) (rate_limits db)))"

definition counts_nonneg :: "database \<Rightarrow> bool" where
  "counts_nonneg db = list_all (\<lambda>r. 0 \<le> request_count r) (rate_limits db)"

section \<open>Actions and the in-flight map\<close>

text \<open>An action keeps the in-flight map when no run of it changes \<open>activeTasks\<close>.\<close>

definition keeps_tasks :: "('w, 'a) action \<Rightarrow> bool" where
  "keeps_tasks m \<longleftrightarrow> (\<forall>s. activeTasks (snd (m s)) = activeTasks s)"

text \<open>
  Two behaviours of the other tasks are alike while \<open>w\<close> is in flight when they do
  the same to every state that has \<open>w\<close> in the map, and leave it there. Two actions
  are the same while \<open>w\<close> is in flight when they do the same from every such state
  and end with \<open>w\<close> in the map.
\<close>

definition alike_while ::
  "jsstring \<Rightarrow> ('w state \<Rightarrow> 'w state) \<Rightarrow> ('w state \<Rightarrow> 'w state) \<Rightarrow> bool" where
  "alike_while w f g \<longleftrightarrow> (\<forall>s. w \<in> activeTasks s \<longrightarrow> f s = g s \<and> w \<in> activeTasks (g s))"

definition same_while :: "jsstring \<Rightarrow> ('w, 'a) action \<Rightarrow> ('w, 'a) action \<Rightarrow> bool" where
  "same_while w m n \<longleftrightarrow>
     (\<forall>s. w \<in> activeTasks s \<longrightarrow> m s = n s \<and> w \<in> activeTasks (snd (n s)))"

chapter \<open>Properties\<close>

section \<open>Literals\<close>

text \<open>An ASCII literal is the list of its character codes.\<close>

lemma js_Nil [simp]: "js [] = []"
  by (simp add: js_def)

lemma js_Cons [simp]: "js (c # cs) = of_char c # js cs"
  by (simp add: js_def)

section \<open>Chunking and truncation\<close>

lemma substring_prefix:
  "0 \<le> n \<Longrightarrow> substring s 0 n = take (nat n) s"
  by (simp add: substring_def Let_def min_def max_def)

lemma substring_from_drop:
  "0 \<le> n \<Longrightarrow> substring_from s n = drop (nat n) s"
  by (simp add: substring_from_def substring_def Let_def min_def max_def)

lemma scan_back_absent:
  "c \<notin> set s \<Longrightarrow> scan_back s c k = -1"
  by (induction k) (auto simp: in_set_conv_nth)

lemma lastIndexOf_absent:
  "c \<notin> set s \<Longrightarrow> lastIndexOf s c i = -1"
  by (simp add: lastIndexOf_def scan_back_absent)

lemma well_formed_replicate_append:
  "\<not> is_high_surrogate u \<Longrightarrow> \<not> is_low_surrogate u \<Longrightarrow>
   well_formed (replicate n u @ s) = well_formed s"
proof (induction n)
  case 0
  then show ?case by simp
next
  case (Suc n)
  then show ?case
    by (cases "replicate n u @ s") auto
qed

text \<open>
  What holds of chunking and truncation, counted in code units. A text within the
  cap is the single chunk. With a cap of at least 1 the loop ends, and every chunk
  is within the cap. Output within the budget is returned as it is; longer output
  is cut to its first 4000 units, and the suffix follows.
\<close>

lemma scan_back_le: "scan_back s c k \<le> int k"
  by (induction k) auto

lemma lastIndexOf_le: "0 \<le> m \<Longrightarrow> lastIndexOf s c m \<le> m"
proof -
  assume m: "0 \<le> m"
  have "scan_back s c (nat (min (max m 0) (int (length s) - 1)))
          \<le> int (nat (min (max m 0) (int (length s) - 1)))"
    by (rule scan_back_le)
  also have "\<dots> \<le> m"
    using m by simp
  finally show ?thesis
    by (simp add: lastIndexOf_def)
qed

lemma length_trimStart: "length (trimStart s) \<le> length s"
  by (simp add: trimStart_def length_dropWhile_le)

lemma split_loop_bounded:
  assumes "1 \<le> maxLen" and "list_all (\<lambda>c. int (length c) \<le> maxLen) chunks"
  shows "\<exists>out. split_loop maxLen remaining chunks = Some out
           \<and> list_all (\<lambda>c. int (length c) \<le> maxLen) out"
  using assms(2)
proof (induction "length remaining" arbitrary: remaining chunks rule: less_induct)
  case less
  show ?case
  proof (cases "remaining = []")
    case True
    with less.prems show ?thesis
      by (subst split_loop.simps) simp
  next
    case False
    show ?thesis
    proof (cases "int (length remaining) \<le> maxLen")
      case True
      with False less.prems show ?thesis
        by (subst split_loop.simps) simp
    next
      case long: False
      define idx where "idx = lastIndexOf remaining newline maxLen"
      define splitIdx where "splitIdx = (if 2 * idx < maxLen then maxLen else idx)"
      have "idx \<le> maxLen"
        unfolding idx_def using assms(1) by (intro lastIndexOf_le) simp
      with assms(1) have range: "1 \<le> splitIdx" "splitIdx \<le> maxLen"
        by (auto simp: splitIdx_def)
      let ?rest = "trimStart (substring_from remaining splitIdx)"
      let ?chunk = "substring remaining 0 splitIdx"
      from range long have "length (substring_from remaining splitIdx) < length remaining"
        by (simp add: substring_from_drop)
      then have shorter: "length ?rest < length remaining"
        using length_trimStart [of "substring_from remaining splitIdx"] by simp
      from range have "int (length ?chunk) \<le> maxLen"
        by (simp add: substring_prefix)
      with less.prems have "list_all (\<lambda>c. int (length c) \<le> maxLen) (chunks @ [?chunk])"
        by simp
      from less.hyps [OF shorter this]
      obtain out where "split_loop maxLen ?rest (chunks @ [?chunk]) = Some out"
        and "list_all (\<lambda>c. int (length c) \<le> maxLen) out"
        by blast
      moreover have "split_loop maxLen remaining chunks
          = split_loop maxLen ?rest (chunks @ [?chunk])"
        using False long
        by (subst split_loop.simps) (simp add: idx_def splitIdx_def Let_def)
      ultimately show ?thesis
        by simp
    qed
  qed
qed

lemma splitMessage_short:
  "int (length t) \<le> maxLen \<Longrightarrow> splitMessage t maxLen = Some [t]"
  by (simp add: splitMessage_def)

lemma splitMessage_bounded:
  assumes "1 \<le> maxLen"
  shows "\<exists>out. splitMessage t maxLen = Some out
           \<and> list_all (\<lambda>c. int (length c) \<le> maxLen) out"
proof (cases "int (length t) \<le> maxLen")
  case True
  then show ?thesis
    by (simp add: splitMessage_def)
next
  case False
  with split_loop_bounded [OF assms, of "[]" t] show ?thesis
    by (simp add: splitMessage_def)
qed

lemma truncate_response_short:
  "int (length r) \<le> 4000 \<Longrightarrow> truncate_response r = r"
  by (simp add: truncate_response_def maxLen_response_def)

lemma truncate_response_long:
  "4000 < int (length r) \<Longrightarrow> truncate_response r = take 4000 r @ truncation_suffix"
  by (simp add: truncate_response_def maxLen_response_def substring_prefix)

section \<open>Cuts inside a surrogate pair\<close>

text \<open>
  C8 (the code departs from the claim). A reply of 1999 letters \<open>a\<close> followed by
  one emoji (U+1F600, the surrogate pair D83D DE00) is well formed and 2001 code
  units long. With the cap of 2000 that \<open>index.js\<close> passes, there is no newline, so
  the text is hard-cut at unit 2000: between the two halves of the pair. The first
  chunk ends with a lone high surrogate and the second is a lone low surrogate;
  neither is a well-formed string.
\<close>

theorem splitMessage_cuts_surrogate_pair:
  "well_formed (replicate 1999 0x61 @ [0xD83D, 0xDE00])
   \<and> splitMessage (replicate 1999 0x61 @ [0xD83D, 0xDE00]) 2000
       = Some [replicate 1999 0x61 @ [0xD83D], [0xDE00]]
   \<and> \<not> well_formed (replicate 1999 0x61 @ [0xD83D])
   \<and> \<not> well_formed [0xDE00]"
proof -
  let ?t = "replicate 1999 (0x61::16 word) @ [0xD83D, 0xDE00]"
  let ?c = "replicate 1999 (0x61::16 word) @ [0xD83D]"
  have "newline \<notin> set ?t"
    by (simp add: newline_def)
  then have idx: "lastIndexOf ?t newline 2000 = -1"
    by (rule lastIndexOf_absent)
  have chunk: "substring ?t 0 2000 = ?c"
    by (simp add: substring_prefix)
  have rest: "trimStart (substring_from ?t 2000) = [0xDE00]"
    by (simp add: substring_from_drop trimStart_def js_whitespace_def)
  have second: "split_loop 2000 [0xDE00] [?c] = Some [?c, [0xDE00]]"
    by (subst split_loop.simps) simp
  have "split_loop 2000 ?t [] = split_loop 2000 [0xDE00] [?c]"
    by (subst split_loop.simps) (simp add: idx chunk rest)
  then have "splitMessage ?t 2000 = Some [?c, [0xDE00]]"
    by (simp add: splitMessage_def second)
  moreover have "well_formed ?t"
    by (simp add: well_formed_replicate_append is_high_surrogate_def is_low_surrogate_def)
  moreover have "\<not> well_formed ?c"
    by (simp add: well_formed_replicate_append is_high_surrogate_def is_low_surrogate_def)
  moreover have "\<not> well_formed [0xDE00]"
    by (simp add: is_high_surrogate_def is_low_surrogate_def)
  ultimately show ?thesis
    by blast
qed

lemma dropWhile_head: "s \<noteq> [] \<Longrightarrow> \<not> P (hd s) \<Longrightarrow> dropWhile P s = s"
  by (cases s) auto

lemma trim_clean_ends:
  assumes "s \<noteq> []" and "\<not> js_whitespace (hd s)" and "\<not> js_whitespace (last s)"
  shows "trim s = s"
proof -
  from assms have "dropWhile js_whitespace s = s"
    by (simp add: dropWhile_head)
  moreover from assms have "dropWhile js_whitespace (rev s) = rev s"
    by (simp add: dropWhile_head hd_rev)
  ultimately show ?thesis
    by (simp add: trim_def)
qed

text \<open>
  C4 (the code departs from the claim). Claude's output is 3999 letters \<open>a\<close>
  followed by the same emoji: well formed, 4001 code units. \<open>substring(0, 4000)\<close>
  keeps the high surrogate and drops the low one, and the suffix is appended to
  that. On the host whose engine is up, with nothing in flight, \<open>execute\<close> returns
  this reply for Alice's message: a string that is not well formed.
\<close>

theorem truncation_cuts_surrogate_pair:
  "well_formed (replicate 3999 0x61 @ [0xD83D, 0xDE00])
   \<and> truncate_response (replicate 3999 0x61 @ [0xD83D, 0xDE00])
       = replicate 3999 0x61 @ [0xD83D] @ truncation_suffix
   \<and> fst (execute (engine_up (replicate 3999 0x61 @ [0xD83D, 0xDE00])) (loadConfig empty_yaml)
              (js ''u1'') (Some alice_row) (js ''hello'') state_alice)
       = Inr (replicate 3999 0x61 @ [0xD83D] @ truncation_suffix)
   \<and> \<not> well_formed (replicate 3999 0x61 @ [0xD83D] @ truncation_suffix)"
proof -
  let ?out = "replicate 3999 (0x61::16 word) @ [0xD83D, 0xDE00]"
  let ?reply = "replicate 3999 (0x61::16 word) @ [0xD83D] @ truncation_suffix"
  have input: "well_formed ?out"
    by (simp add: well_formed_replicate_append is_high_surrogate_def is_low_surrogate_def)
  have cut: "truncate_response ?out = ?reply"
    by (simp add: truncate_response_def maxLen_response_def substring_prefix)
  have clean: "trim ?out = ?out"
    by (rule trim_clean_ends) (simp_all add: js_whitespace_def hd_append)
  have run: "fst (execute (engine_up ?out) (loadConfig empty_yaml) (js ''u1'') (Some alice_row)
                   (js ''hello'') state_alice) = Inr ?reply"
    by (simp add: execute_def execute_try_def tryCatch_def andThen_def return_def
        ensureContainer_def containerExists_def isRunning_def execFileAsync_def
        engine_up_def engine_down_def state_alice_def Let_def getOrCreateSession_def
        createSession_def get_store_def sessionsDB_getActive_def db_alice_def
        fresh_uuid_def now_text_def run_store_def sessionsDB_create_def friendsDB_get_def
        alice_row_def modify_store_def sessionsDB_touch_def execClaude_def clean
        or_string_def truthy_def truncate_response_def maxLen_response_def
        substring_prefix trim_def js_whitespace_def)
  have broken: "\<not> well_formed ?reply"
    by (simp add: truncation_suffix_def well_formed_replicate_append is_high_surrogate_def
        is_low_surrogate_def)
  from input cut run broken show ?thesis
    by blast
qed

section \<open>The friends table\<close>

text \<open>
  What \<open>friendsDB.upsert\<close> does to a row that exists: a nickname, remark or note
  left out keeps its stored value, and the permission becomes the one given, or
  \<open>normal\<close> when none is given.
\<close>

lemma upsert_existing_row:
  assumes "friendsDB_get db w = Some row"
    and "valid_permission (or_default (new_permission given) (js ''normal''))"
  shows "friendsDB_upsert now db w given =
     Inr (db\<lparr>friends := map
       (\<lambda>f. if wxid f = w
            then f\<lparr>nickname := coalesce (new_nickname given) (nickname f),
                   remark_name := coalesce (new_remark_name given) (remark_name f),
                   permission := or_default (new_permission given) (js ''normal''),
                   friend_notes := coalesce (new_notes given) (friend_notes f)\<rparr>
            else f)
       (friends db)\<rparr>)"
  using assms by (simp add: friendsDB_upsert_def coalesce_text_def)

text \<open>
  C1 (the code departs from the claim). Alice is stored with the tier \<open>trusted\<close>.
  She changes her nickname, and the router's re-registration calls
  \<open>upsert\<close> with \<open>{nickname, remark_name}\<close> only. The row that results has the new
  nickname and the tier \<open>normal\<close>: the permission that was left out is overwritten
  by the default, on a row that already existed.
\<close>

theorem reregistration_overwrites_permission:
  "friendsDB_getPermission db_alice (js ''u1'') = Some (js ''trusted'')
   \<and> ensureFriendRegistered (loadConfig empty_yaml) (js ''2026-11-02 09:00:00'')
         db_alice (js ''u1'') (js ''Alicia'') []
       = Inr (db_alice\<lparr>friends :=
           [alice_row\<lparr>nickname := Some (js ''Alicia''), permission := js ''normal''\<rparr>]\<rparr>)
   \<and> friendsDB_upsert (js ''2026-11-02 09:00:00'') db_alice (js ''u1'')
         \<lparr>new_nickname = Some (js ''Alicia''), new_remark_name = None,
          new_permission = None, new_added_by = None, new_notes = None\<rparr>
       = Inr (db_alice\<lparr>friends :=
           [alice_row\<lparr>nickname := Some (js ''Alicia''), permission := js ''normal''\<rparr>]\<rparr>)"
  by (simp add: ensureFriendRegistered_def friendsDB_upsert_def friendsDB_get_def
      friendsDB_getPermission_def db_alice_def alice_row_def or_default_def
      valid_permission_def coalesce_def coalesce_text_def)

text \<open>
  \<open>LIKE\<close> with the pattern \<open>%q%\<close> finds every text that contains \<open>q\<close> literally,
  whatever characters \<open>q\<close> is made of: the search returns every friend whose
  nickname or remark contains the search string. It returns more than those.
\<close>

lemma like_percent_all: "like [percent] t"
  by (induction t) auto

lemma like_percent_empty: "like ps cs \<Longrightarrow> like (percent # ps) cs"
  by (cases cs) auto

lemma like_percent_skip: "like (percent # ps) cs \<Longrightarrow> like (percent # ps) (c # cs)"
  by simp

lemma like_same_head: "like ps cs \<Longrightarrow> like (p # ps) (p # cs)"
  by (simp add: like_percent_empty)

lemma like_literal_prefix: "like (q @ [percent]) (q @ rest)"
  by (induction q) (simp_all add: like_percent_all like_same_head del: like.simps(3))

lemma startsWith_append: "startsWith t q \<Longrightarrow> \<exists>rest. t = q @ rest"
  by (metis append_take_drop_id startsWith_def)

lemma like_of_startsWith: "startsWith t q \<Longrightarrow> like (percent # q @ [percent]) t"
proof -
  assume "startsWith t q"
  then obtain rest where "t = q @ rest"
    using startsWith_append by blast
  then show ?thesis
    using like_literal_prefix [of q rest] by (simp add: like_percent_empty)
qed

lemma like_of_includes: "js_includes t q \<Longrightarrow> like (percent # q @ [percent]) t"
proof (induction t)
  case Nil
  then show ?case
    by (simp add: like_percent_all)
next
  case (Cons c cs)
  then show ?case
    using like_of_startsWith [of "c # cs" q] like_percent_skip [of "q @ [percent]" cs c]
    by auto
qed

lemma findByNickname_finds_literal_matches:
  assumes "f \<in> set (friends db)"
    and "nickname f = Some t \<or> remark_name f = Some t"
    and "js_includes t q"
  shows "f \<in> set (friendsDB_findByNickname db q)"
  using assms like_of_includes [of t q]
  by (auto simp: friendsDB_findByNickname_def like_column_def Let_def)

text \<open>
  C6 (the code departs from the claim). The search string \<open>_\<close> is put into the
  \<open>LIKE\<close> pattern as it is, where it stands for any one character: Alice is found,
  though neither her nickname nor her remark contains an underscore.
\<close>

theorem findByNickname_underscore_is_wildcard:
  "friendsDB_findByNickname db_alice (js ''_'') = [alice_row]
   \<and> \<not> js_includes (js ''Alice'') (js ''_'')
   \<and> \<not> js_includes [] (js ''_'')
   \<and> nickname alice_row = Some (js ''Alice'')
   \<and> remark_name alice_row = Some []"
  by (simp add: friendsDB_findByNickname_def db_alice_def alice_row_def like_column_def
      percent_def underscore_def startsWith_def)

section \<open>The rate limiter\<close>

text \<open>
  What holds of the limiter. A denied call leaves the store as it is. With
  \<open>max_per_minute \<ge> 1\<close> and \<open>max_per_day \<ge> 0\<close>, however the clock moves between
  the calls, no minute sees more than \<open>max_per_minute\<close> admitted calls and no day
  more than \<open>max_per_day\<close>.
\<close>

lemma denied_call_changes_nothing:
  "fst (rateLimitDB_checkAndIncrement now db w maxPerMinute maxPerDay) = Inl reason \<Longrightarrow>
   snd (rateLimitDB_checkAndIncrement now db w maxPerMinute maxPerDay) = db"
  by (auto simp: rateLimitDB_checkAndIncrement_def Let_def split: if_splits)

lemma find_bump:
  "find (\<lambda>r. rate_wxid r = w \<and> window_start r = k')
     (map (\<lambda>r. if rate_wxid r = w \<and> window_start r = k
               then r\<lparr>request_count := request_count r + 1\<rparr> else r) rows)
   = map_option (\<lambda>r. if window_start r = k then r\<lparr>request_count := request_count r + 1\<rparr> else r)
       (find (\<lambda>r. rate_wxid r = w \<and> window_start r = k') rows)"
  by (induction rows) auto

lemma find_snoc:
  "find P (rows @ [r]) = (case find P rows of None \<Rightarrow> (if P r then Some r else None) | Some x \<Rightarrow> Some x)"
  by (induction rows) auto

lemma minute_count_upsert:
  "minute_count (rate_upsert db w k) w k' = minute_count db w k' + (if k' = k then 1 else 0)"
proof (cases "minuteRow db w k")
  case None
  then show ?thesis
    by (auto simp: minute_count_def rate_upsert_def minuteRow_def find_snoc split: option.splits)
next
  case (Some row)
  then have key: "window_start row = k"
    by (auto simp: minuteRow_def dest: find_Some_iff [THEN iffD1])
  show ?thesis
  proof (cases "k' = k")
    case True
    with Some key show ?thesis
      by (simp add: minute_count_def rate_upsert_def minuteRow_def find_bump)
  next
    case False
    then have "\<And>r. find (\<lambda>r. rate_wxid r = w \<and> window_start r = k') (rate_limits db) = Some r
        \<Longrightarrow> window_start r \<noteq> k"
      by (auto dest: find_Some_iff [THEN iffD1])
    with Some False show ?thesis
      by (auto simp: minute_count_def rate_upsert_def minuteRow_def find_bump split: option.splits)
  qed
qed

lemma sum_bump:
  "sum_list (map request_count (filter (\<lambda>r. rate_wxid r = w \<and> window_start r div 1440 = d)
     (map (\<lambda>r. if rate_wxid r = w \<and> window_start r = k
               then r\<lparr>request_count := request_count r + 1\<rparr> else r) rows)))
   = sum_list (map request_count (filter (\<lambda>r. rate_wxid r = w \<and> window_start r div 1440 = d) rows))
     + (if k div 1440 = d
        then int (length (filter (\<lambda>r. rate_wxid r = w \<and> window_start r = k) rows)) else 0)"
  by (induction rows) auto

lemma find_Some_filter_nonempty:
  "find P rows = Some r \<Longrightarrow> 1 \<le> int (length (filter P rows))"
  by (induction rows) (auto split: if_splits)

lemma day_total_upsert:
  "day_total db w d + (if k div 1440 = d then 1 else 0) \<le> day_total (rate_upsert db w k) w d"
proof (cases "minuteRow db w k")
  case None
  then show ?thesis
    by (simp add: day_total_def rate_upsert_def)
next
  case (Some row)
  then have "1 \<le> int (length (filter (\<lambda>r. rate_wxid r = w \<and> window_start r = k) (rate_limits db)))"
    unfolding minuteRow_def by (rule find_Some_filter_nonempty)
  with Some show ?thesis
    by (simp add: day_total_def rate_upsert_def sum_bump)
qed

lemma counts_nonneg_upsert: "counts_nonneg db \<Longrightarrow> counts_nonneg (rate_upsert db w k)"
  by (auto simp: counts_nonneg_def rate_upsert_def list_all_iff split: option.splits)

lemma sum_filter_mono:
  "list_all (\<lambda>r. 0 \<le> request_count r) rows \<Longrightarrow> (\<And>r. P r \<Longrightarrow> Q r) \<Longrightarrow>
   sum_list (map request_count (filter P rows)) \<le> sum_list (map request_count (filter Q rows))"
  by (induction rows) auto

lemma day_total_le_dayCount: "counts_nonneg db \<Longrightarrow> day_total db w d \<le> dayCount db w d"
  unfolding day_total_def dayCount_def counts_nonneg_def
  by (rule sum_filter_mono) auto

lemma day_of_minute: "(t::int) div 60000 div 1440 = t div 86400000"
proof -
  have "t div (60000 * 1440) = t div 60000 div 1440"
    by (rule zdiv_zmult2_eq) simp
  then show ?thesis by simp
qed

lemma check_all_bounds:
  assumes "1 \<le> maxPerMinute" and "counts_nonneg db"
  shows "(admitted_in_minute (snd (check_all db w maxPerMinute maxPerDay ts)) k = 0
          \<or> minute_count db w k + admitted_in_minute (snd (check_all db w maxPerMinute maxPerDay ts)) k
              \<le> maxPerMinute)
       \<and> (admitted_on_day (snd (check_all db w maxPerMinute maxPerDay ts)) d = 0
          \<or> day_total db w d + admitted_on_day (snd (check_all db w maxPerMinute maxPerDay ts)) d
              \<le> maxPerDay)
       \<and> counts_nonneg (fst (check_all db w maxPerMinute maxPerDay ts))"
  using assms(2)
proof (induction ts arbitrary: db)
  case Nil
  then show ?case by (simp add: admitted_in_minute_def admitted_on_day_def)
next
  case (Cons t ts)
  let ?k0 = "t div 60000"
  let ?d0 = "t div 86400000"
  show ?case
  proof (cases "fst (rateLimitDB_checkAndIncrement t db w maxPerMinute maxPerDay)")
    case (Inl reason)
    then have same: "rateLimitDB_checkAndIncrement t db w maxPerMinute maxPerDay = (Inl reason, db)"
      by (auto simp: rateLimitDB_checkAndIncrement_def Let_def split: if_splits)
    with Cons.IH [OF Cons.prems] show ?thesis by simp
  next
    case (Inr u)
    then have adm: "rateLimitDB_checkAndIncrement t db w maxPerMinute maxPerDay
        = (Inr (), rate_upsert db w ?k0)"
      and minute_ok: "minute_count db w ?k0 < maxPerMinute"
      and day_ok: "dayCount db w ?d0 < maxPerDay"
      using assms(1)
      by (auto simp: rateLimitDB_checkAndIncrement_def Let_def minute_count_def
          split: if_splits option.splits)
    let ?db' = "rate_upsert db w ?k0"
    let ?rest = "snd (check_all ?db' w maxPerMinute maxPerDay ts)"
    have nn: "counts_nonneg ?db'"
      using Cons.prems by (rule counts_nonneg_upsert)
    note IH = Cons.IH [OF nn]
    have run: "check_all db w maxPerMinute maxPerDay (t # ts)
        = (fst (check_all ?db' w maxPerMinute maxPerDay ts), t # ?rest)"
      using adm by (simp split: prod.splits)
    have minute: "admitted_in_minute (t # ?rest) k = admitted_in_minute ?rest k + (if k = ?k0 then 1 else 0)"
      by (auto simp: admitted_in_minute_def)
    have day: "admitted_on_day (t # ?rest) d = admitted_on_day ?rest d + (if d = ?d0 then 1 else 0)"
      by (auto simp: admitted_on_day_def)
    have rest_m: "0 \<le> admitted_in_minute ?rest k" and rest_d: "0 \<le> admitted_on_day ?rest d"
      by (simp_all add: admitted_in_minute_def admitted_on_day_def)
    have m': "minute_count ?db' w k = minute_count db w k + (if k = ?k0 then 1 else 0)"
      by (rule minute_count_upsert)
    have d': "day_total db w d + (if d = ?d0 then 1 else 0) \<le> day_total ?db' w d"
      using day_total_upsert [of db w d ?k0] by (simp add: day_of_minute eq_commute)
    have dle: "day_total db w ?d0 \<le> dayCount db w ?d0"
      using Cons.prems by (rule day_total_le_dayCount)
    from IH have IHm: "admitted_in_minute ?rest k = 0
        \<or> minute_count ?db' w k + admitted_in_minute ?rest k \<le> maxPerMinute"
      and IHd: "admitted_on_day ?rest d = 0 \<or> day_total ?db' w d + admitted_on_day ?rest d \<le> maxPerDay"
      and IHn: "counts_nonneg (fst (check_all ?db' w maxPerMinute maxPerDay ts))"
      by blast+
    have goal_m: "admitted_in_minute (t # ?rest) k = 0
        \<or> minute_count db w k + admitted_in_minute (t # ?rest) k \<le> maxPerMinute"
      using IHm m' minute minute_ok rest_m by (cases "k = ?k0") auto
    have goal_d: "admitted_on_day (t # ?rest) d = 0
        \<or> day_total db w d + admitted_on_day (t # ?rest) d \<le> maxPerDay"
      using IHd d' day day_ok dle rest_d by (cases "d = ?d0") auto
    from goal_m goal_d IHn run show ?thesis by simp
  qed
qed

lemma positive_limits_are_kept:
  assumes "1 \<le> maxPerMinute" and "0 \<le> maxPerDay"
  shows "admitted_in_minute (snd (check_all db_empty w maxPerMinute maxPerDay ts)) k \<le> maxPerMinute
       \<and> admitted_on_day (snd (check_all db_empty w maxPerMinute maxPerDay ts)) d \<le> maxPerDay"
proof -
  have "counts_nonneg db_empty" by (simp add: counts_nonneg_def db_empty_def)
  from check_all_bounds [OF assms(1) this, of w maxPerDay ts k d]
  show ?thesis using assms
    by (auto simp: minute_count_def minuteRow_def day_total_def db_empty_def)
qed

text \<open>
  C2 (the code departs from the claim). With \<open>max_per_minute = 0\<close> and no counter
  yet for the current minute, the per-minute test is skipped (there is no row to
  compare), the day's total \<open>0\<close> is below \<open>max_per_day = 5\<close>, and the call is
  admitted: a counter of \<open>1\<close> is stored. The time is 2026-11-02 10:00:00 UTC.
\<close>

theorem zero_minute_limit_admits:
  "rateLimitDB_checkAndIncrement 1793613600000 db_empty (js ''u1'') 0 5
     = (Inr (),
        db_empty\<lparr>rate_limits :=
          [\<lparr>rate_wxid = js ''u1'', window_start = 29893560, request_count = 1\<rparr>]\<rparr>)"
  by (simp add: rateLimitDB_checkAndIncrement_def minuteRow_def dayCount_def
      rate_upsert_def db_empty_def)

section \<open>The effective permission\<close>


section \<open>The environment of a container\<close>

text \<open>
  Neither argument list reads \<open>CLAUDE_CODE_OAUTH_TOKEN\<close>: whatever the host holds
  for it, the lists are the same.
\<close>

lemma createContainer_args_ignore_oauth_token:
  "createContainer_args
     (rt\<lparr>process_env := (process_env rt)(js ''CLAUDE_CODE_OAUTH_TOKEN'' := v)\<rparr>)
     cfg w perm dir
   = createContainer_args rt cfg w perm dir"
  by (simp add: createContainer_args_def)

lemma execClaude_args_ignore_oauth_token:
  "execClaude_args
     (rt\<lparr>process_env := (process_env rt)(js ''CLAUDE_CODE_OAUTH_TOKEN'' := v)\<rparr>)
     cfg w prompt msg claudeSession perm
   = execClaude_args rt cfg w prompt msg claudeSession perm"
  by (simp add: execClaude_args_def)

text \<open>
  \<open>createContainer\<close> hands exactly that list to \<open>docker\<close>: what it asks of the host
  whose engine is up, in order.
\<close>

lemma createContainer_asks_the_host:
  "trace (snd (createContainer (engine_up []) (loadConfig empty_yaml) (js ''u1'') (js ''normal'')
                 state_alice))
   = [Mkdir (js ''/root/claude-bridge-data/u1''),
      ExecFile (createContainer_args (engine_up []) (loadConfig empty_yaml) (js ''u1'')
                  (js ''normal'') (js ''/root/claude-bridge-data/u1'')),
      Mkdir (js ''/root/claude-bridge-data/u1''),
      Mkdir (js ''/root/claude-bridge-data/u1/workspace''),
      Mkdir (js ''/root/claude-bridge-data/u1/claude-config''),
      ExecFile [js ''exec'', js ''-u'', js ''root'', js ''claude-friend-u1'', js ''chown'',
                js ''-R'', js ''sandbox:sandbox'', js ''/home/sandbox/workspace'',
                js ''/home/sandbox/.claude'']]"
  by (simp add: createContainer_def userDataDir_def fixPermissions_def mkdir_def
      execFileAsync_def andThen_def tryCatch_def return_def engine_up_def engine_down_def
      state_alice_def Let_def dataDir_def oauth_only_def print_undefined_def loadConfig_def
      empty_yaml_def or_default_def containerName_def docker_safe_def
      createContainer_args_def)


section \<open>Session expiry\<close>

text \<open>
  For a \<open>last_active\<close> that \<open>Date\<close> can read, the session is expired exactly when
  it lies in the past by more than the window; one in the future is not expired
  (the window is not negative). For one that \<open>Date\<close> cannot read, the test is
  false.
\<close>

lemma session_expired_parsed:
  "date_getTime rt (last_active sess) = Some t \<Longrightarrow>
   session_expired rt cfg now sess \<longleftrightarrow> expire_minutes cfg * 60000 < now - t"
  by (simp add: session_expired_def mult.commute)

lemma session_future_not_expired:
  "date_getTime rt (last_active sess) = Some t \<Longrightarrow> now \<le> t \<Longrightarrow> 0 \<le> expire_minutes cfg \<Longrightarrow>
   \<not> session_expired rt cfg now sess"
  by (simp add: session_expired_def)

lemma session_unparseable_not_expired:
  "date_getTime rt (last_active sess) = None \<Longrightarrow> \<not> session_expired rt cfg now sess"
  by (simp add: session_expired_def)

lemma unparseable_session_is_kept:
  assumes "sessionsDB_getActive (store s) w = Some sess"
    and "date_getTime rt (last_active sess) = None"
  shows "getOrCreateSession rt cfg w s = (Inr (Some sess), s)"
  using assms
  by (simp add: getOrCreateSession_def andThen_def get_store_def now_ms_def return_def
      session_expired_def)

text \<open>
  C3 (the code departs from the claim). Alice's only session has the
  \<open>last_active\<close> value \<open>not-a-timestamp\<close>, which \<open>Date\<close> cannot read.
  \<open>getOrCreateSession\<close> returns that session and leaves the store as it is: the
  session is neither treated as expired nor cleared, and no new one is created.
\<close>

theorem unparseable_last_active_keeps_session:
  "date_getTime engine_down (last_active odd_session) = None
   \<and> sessionsDB_getActive (store state_odd_session) (js ''u1'') = Some odd_session
   \<and> getOrCreateSession engine_down (loadConfig empty_yaml) (js ''u1'') state_odd_session
       = (Inr (Some odd_session), state_odd_session)"
  by (simp add: getOrCreateSession_def andThen_def get_store_def now_ms_def return_def
      session_expired_def sessionsDB_getActive_def state_odd_session_def odd_session_def
      engine_down_def)

section \<open>The concurrency guard of the executor\<close>

subsection \<open>Actions that leave the in-flight map alone\<close>

named_theorems keeps

lemma keeps_return [keeps]: "keeps_tasks (return a)"
  by (simp add: keeps_tasks_def return_def)

lemma keeps_throw [keeps]: "keeps_tasks (throw e)"
  by (simp add: keeps_tasks_def throw_def)

lemma keeps_andThen [keeps]:
  assumes "keeps_tasks m" and "\<And>a. keeps_tasks (f a)"
  shows "keeps_tasks (andThen m f)"
  unfolding keeps_tasks_def
proof
  fix s
  obtain r s' where m: "m s = (r, s')"
    by (cases "m s")
  with assms(1) have s': "activeTasks s' = activeTasks s"
    by (auto simp: keeps_tasks_def dest: spec [of _ s])
  show "activeTasks (snd (andThen m f s)) = activeTasks s"
  proof (cases r)
    case (Inl e)
    with m s' show ?thesis
      by (simp add: andThen_def)
  next
    case (Inr a)
    from assms(2) [of a] have "activeTasks (snd (f a s')) = activeTasks s'"
      by (simp add: keeps_tasks_def)
    with m s' Inr show ?thesis
      by (simp add: andThen_def)
  qed
qed

lemma keeps_tryCatch [keeps]:
  assumes "keeps_tasks m" and "\<And>e. keeps_tasks (h e)"
  shows "keeps_tasks (tryCatch m h)"
  unfolding keeps_tasks_def
proof
  fix s
  obtain r s' where m: "m s = (r, s')"
    by (cases "m s")
  with assms(1) have s': "activeTasks s' = activeTasks s"
    by (auto simp: keeps_tasks_def dest: spec [of _ s])
  show "activeTasks (snd (tryCatch m h s)) = activeTasks s"
  proof (cases r)
    case (Inl e)
    from assms(2) [of e] have "activeTasks (snd (h e s')) = activeTasks s'"
      by (simp add: keeps_tasks_def)
    with m s' Inl show ?thesis
      by (simp add: tryCatch_def)
  next
    case (Inr a)
    with m s' show ?thesis
      by (simp add: tryCatch_def)
  qed
qed

lemma keeps_primitives [keeps]:
  "keeps_tasks get_store"
  "keeps_tasks (now_text rt)"
  "keeps_tasks (now_ms rt)"
  "keeps_tasks (fresh_uuid rt)"
  "keeps_tasks (modify_store f)"
  "keeps_tasks (run_store g)"
  "keeps_tasks (mkdir rt path)"
  by (simp_all add: keeps_tasks_def get_store_def now_text_def now_ms_def fresh_uuid_def
      modify_store_def run_store_def mkdir_def Let_def
      split: prod.splits sum.splits)

lemma keeps_if [keeps]:
  "keeps_tasks m \<Longrightarrow> keeps_tasks n \<Longrightarrow> keeps_tasks (if b then m else n)"
  by simp

text \<open>
  A call to the host leaves the map as the other tasks leave it. The lemmas below
  are about a run time whose other tasks do not change the map.
\<close>

lemma keeps_execFileAsync [keeps]:
  assumes "\<And>s. activeTasks (meanwhile rt s) = activeTasks s"
  shows "keeps_tasks (execFileAsync rt args)"
  using assms
  by (simp add: keeps_tasks_def execFileAsync_def Let_def split: prod.splits sum.splits)

lemma keeps_execClaude [keeps]:
  assumes "\<And>s. activeTasks (meanwhile rt s) = activeTasks s"
  shows "keeps_tasks (execClaude rt cfg w prompt msg claudeSession perm timeout)"
  using assms
  by (simp add: keeps_tasks_def execClaude_def Let_def split: prod.splits spawn_result.splits)

lemma keeps_ensureContainer [keeps]:
  assumes "\<And>s. activeTasks (meanwhile rt s) = activeTasks s"
  shows "keeps_tasks (ensureContainer rt cfg w perm)"
  unfolding ensureContainer_def containerExists_def createContainer_def userDataDir_def
    fixPermissions_def isRunning_def startContainer_def Let_def
  using assms by (auto intro!: keeps)

lemma keeps_createSession [keeps]: "keeps_tasks (createSession rt w)"
  unfolding createSession_def by (intro keeps)

lemma keeps_getOrCreateSession [keeps]: "keeps_tasks (getOrCreateSession rt cfg w)"
  unfolding getOrCreateSession_def
  by (intro keeps) (auto split: option.splits intro!: keeps)

lemma keeps_tryExtractSessionId [keeps]: "keeps_tasks (tryExtractSessionId rt sid err)"
  unfolding tryExtractSessionId_def by (auto split: option.splits intro!: keeps)

lemma keeps_execute_try:
  assumes "\<And>s. activeTasks (meanwhile rt s) = activeTasks s"
  shows "keeps_tasks (execute_try rt cfg w friendInfo msg)"
  unfolding execute_try_def using assms by (auto split: option.splits intro!: keeps)

subsection \<open>What the other tasks can see\<close>

text \<open>
  The built-ins and the synchronous calls of a run time do not depend on its other
  tasks.
\<close>

lemma execClaude_args_meanwhile [simp]:
  "execClaude_args (rt\<lparr>meanwhile := g\<rparr>) = execClaude_args rt"
  by (simp add: fun_eq_iff execClaude_args_def)

lemma createContainer_args_meanwhile [simp]:
  "createContainer_args (rt\<lparr>meanwhile := g\<rparr>) = createContainer_args rt"
  by (simp add: fun_eq_iff createContainer_args_def)

lemma dataDir_meanwhile [simp]: "dataDir (rt\<lparr>meanwhile := g\<rparr>) = dataDir rt"
  by (simp add: fun_eq_iff dataDir_def)

lemma session_expired_meanwhile [simp]:
  "session_expired (rt\<lparr>meanwhile := g\<rparr>) = session_expired rt"
  by (simp add: fun_eq_iff session_expired_def)

lemma mkdir_meanwhile [simp]: "mkdir (rt\<lparr>meanwhile := g\<rparr>) = mkdir rt"
  by (simp add: fun_eq_iff mkdir_def)

lemma now_text_meanwhile [simp]: "now_text (rt\<lparr>meanwhile := g\<rparr>) = now_text rt"
  by (simp add: fun_eq_iff now_text_def)

lemma now_ms_meanwhile [simp]: "now_ms (rt\<lparr>meanwhile := g\<rparr>) = now_ms rt"
  by (simp add: fun_eq_iff now_ms_def)

lemma fresh_uuid_meanwhile [simp]: "fresh_uuid (rt\<lparr>meanwhile := g\<rparr>) = fresh_uuid rt"
  by (simp add: fun_eq_iff fresh_uuid_def)

text \<open>
  Two actions are the same while \<open>w\<close> is in flight when they do the same from every
  state that has \<open>w\<close> in the map, and end with \<open>w\<close> in the map. The steps of the
  \<open>try\<close> block of \<open>execute\<close> are the same under two run times whose other tasks
  are alike while \<open>w\<close> is in flight: what the other tasks would do in a state
  without \<open>w\<close> in the map is never asked for.
\<close>

named_theorems same

lemma same_keeps: "keeps_tasks m \<Longrightarrow> same_while w m m"
  by (simp add: same_while_def keeps_tasks_def)

lemma same_return [same]: "same_while w (return a) (return a)"
  by (intro same_keeps keeps)

lemma same_throw [same]: "same_while w (throw e) (throw e)"
  by (intro same_keeps keeps)

lemma same_primitives [same]:
  "same_while w get_store get_store"
  "same_while w (now_text rt) (now_text rt)"
  "same_while w (now_ms rt) (now_ms rt)"
  "same_while w (fresh_uuid rt) (fresh_uuid rt)"
  "same_while w (modify_store f) (modify_store f)"
  "same_while w (run_store g) (run_store g)"
  "same_while w (mkdir rt path) (mkdir rt path)"
  by (intro same_keeps keeps)+

lemma same_andThen [same]:
  assumes "same_while w m n" and "\<And>a. same_while w (f a) (g a)"
  shows "same_while w (andThen m f) (andThen n g)"
  unfolding same_while_def
proof (intro allI impI)
  fix s :: "'a state"
  assume w: "w \<in> activeTasks s"
  obtain r s' where n: "n s = (r, s')"
    by (cases "n s")
  from assms(1) w n have m: "m s = (r, s')" and w': "w \<in> activeTasks s'"
    by (auto simp: same_while_def)
  show "andThen m f s = andThen n g s \<and> w \<in> activeTasks (snd (andThen n g s))"
  proof (cases r)
    case (Inl e)
    with m n w' show ?thesis
      by (simp add: andThen_def)
  next
    case (Inr a)
    from assms(2) [of a] w' have "f a s' = g a s' \<and> w \<in> activeTasks (snd (g a s'))"
      by (simp add: same_while_def)
    with m n Inr show ?thesis
      by (simp add: andThen_def)
  qed
qed

lemma same_tryCatch [same]:
  assumes "same_while w m n" and "\<And>e. same_while w (h e) (k e)"
  shows "same_while w (tryCatch m h) (tryCatch n k)"
  unfolding same_while_def
proof (intro allI impI)
  fix s :: "'a state"
  assume w: "w \<in> activeTasks s"
  obtain r s' where n: "n s = (r, s')"
    by (cases "n s")
  from assms(1) w n have m: "m s = (r, s')" and w': "w \<in> activeTasks s'"
    by (auto simp: same_while_def)
  show "tryCatch m h s = tryCatch n k s \<and> w \<in> activeTasks (snd (tryCatch n k s))"
  proof (cases r)
    case (Inl e)
    from assms(2) [of e] w' have "h e s' = k e s' \<and> w \<in> activeTasks (snd (k e s'))"
      by (simp add: same_while_def)
    with m n Inl show ?thesis
      by (simp add: tryCatch_def)
  next
    case (Inr a)
    with m n w' show ?thesis
      by (simp add: tryCatch_def)
  qed
qed

lemma same_if [same]:
  "same_while w m n \<Longrightarrow> same_while w m' n'
   \<Longrightarrow> same_while w (if b then m else m') (if b then n else n')"
  by simp

lemma same_execFileAsync [same]:
  assumes "alike_while w (meanwhile rt) g"
  shows "same_while w (execFileAsync rt args) (execFileAsync (rt\<lparr>meanwhile := g\<rparr>) args)"
  using assms
  by (auto simp: same_while_def alike_while_def execFileAsync_def Let_def
      split: prod.splits sum.splits)

lemma same_execClaude [same]:
  assumes "alike_while w (meanwhile rt) g"
  shows "same_while w (execClaude rt cfg u prompt msg claudeSession perm timeout)
           (execClaude (rt\<lparr>meanwhile := g\<rparr>) cfg u prompt msg claudeSession perm timeout)"
  using assms
  by (auto simp: same_while_def alike_while_def execClaude_def Let_def
      split: prod.splits spawn_result.splits)

lemma same_ensureContainer [same]:
  assumes "alike_while w (meanwhile rt) g"
  shows "same_while w (ensureContainer rt cfg u perm)
           (ensureContainer (rt\<lparr>meanwhile := g\<rparr>) cfg u perm)"
  unfolding ensureContainer_def containerExists_def createContainer_def userDataDir_def
    fixPermissions_def isRunning_def startContainer_def Let_def
  using assms by (auto intro!: same)

lemma same_createSession [same]:
  "same_while w (createSession rt u) (createSession (rt\<lparr>meanwhile := g\<rparr>) u)"
  unfolding createSession_def by (auto intro!: same)

lemma same_getOrCreateSession [same]:
  "same_while w (getOrCreateSession rt cfg u)
     (getOrCreateSession (rt\<lparr>meanwhile := g\<rparr>) cfg u)"
  unfolding getOrCreateSession_def by (auto intro!: same split: option.splits)

lemma same_tryExtractSessionId [same]:
  "same_while w (tryExtractSessionId rt sid err)
     (tryExtractSessionId (rt\<lparr>meanwhile := g\<rparr>) sid err)"
  unfolding tryExtractSessionId_def by (auto intro!: same split: option.splits)

lemma same_execute_try:
  assumes "alike_while w (meanwhile rt) g"
  shows "same_while w (execute_try rt cfg u friendInfo msg)
           (execute_try (rt\<lparr>meanwhile := g\<rparr>) cfg u friendInfo msg)"
  unfolding execute_try_def using assms by (auto intro!: same split: option.splits)

subsection \<open>The guard\<close>

text \<open>
  C5. The run time, the host and the other tasks are arbitrary, so every step of
  \<open>execute\<close> may end with a value or throw.
  \<^item> If the wxid is in the in-flight map, \<open>execute\<close> returns the busy reply and the
    state is the one it was called in: the store, the host and the list of
    processes asked for are untouched, so neither the engine nor the store nor
    the Claude CLI was invoked, and no other task ran in between.
  \<^item> Otherwise the \<open>try\<close> block with its \<open>catch\<close> runs from the state that has the
    wxid in the map; it ends with a reply, never with an exception, and \<open>execute\<close>
    returns that reply in the state the block left, with the wxid deleted from
    the map.
  \<^item> The wxid is in the map before the first \<open>await\<close>, where the other tasks can
    see it: \<open>execute\<close> does the same under any two behaviours of the other tasks
    that are alike in the states that have the wxid in the map and that leave it
    there. What the other tasks would do on finding the wxid absent plays no part.
  \<^item> When the other tasks do not change the map, \<open>execute\<close> returns with the map
    it was called with.
\<close>

theorem execute_guard:
  "(w \<in> activeTasks s \<longrightarrow> execute rt cfg w friendInfo msg s = (Inr txt_busy, s))
   \<and> (w \<notin> activeTasks s \<longrightarrow>
        (\<exists>reply s'.
           tryCatch (execute_try rt cfg w friendInfo msg) (\<lambda>error. return txt_execute_error)
             (s\<lparr>activeTasks := insert w (activeTasks s)\<rparr>) = (Inr reply, s')
           \<and> execute rt cfg w friendInfo msg s
               = (Inr reply, s'\<lparr>activeTasks := activeTasks s' - {w}\<rparr>))
        \<and> w \<notin> activeTasks (snd (execute rt cfg w friendInfo msg s)))
   \<and> ((\<forall>s'. w \<in> activeTasks s'
              \<longrightarrow> meanwhile rt s' = others s' \<and> w \<in> activeTasks (others s'))
        \<longrightarrow> execute rt cfg w friendInfo msg s
            = execute (rt\<lparr>meanwhile := others\<rparr>) cfg w friendInfo msg s)
   \<and> ((\<forall>s'. activeTasks (meanwhile rt s') = activeTasks s')
        \<longrightarrow> activeTasks (snd (execute rt cfg w friendInfo msg s)) = activeTasks s)"
proof (intro conjI impI)
  assume "w \<in> activeTasks s"
  then show "execute rt cfg w friendInfo msg s = (Inr txt_busy, s)"
    by (simp add: execute_def)
next
  assume free: "w \<notin> activeTasks s"
  let ?s1 = "s\<lparr>activeTasks := insert w (activeTasks s)\<rparr>"
  let ?m = "tryCatch (execute_try rt cfg w friendInfo msg) (\<lambda>error. return txt_execute_error)"
  obtain r s' where run: "?m ?s1 = (r, s')"
    by (cases "?m ?s1")
  then obtain reply where r: "r = Inr reply"
    by (auto simp: tryCatch_def return_def split: prod.splits sum.splits)
  from free run r
  have "execute rt cfg w friendInfo msg s
      = (Inr reply, s'\<lparr>activeTasks := activeTasks s' - {w}\<rparr>)"
    by (simp add: execute_def)
  with run r show "\<exists>reply s'. ?m ?s1 = (Inr reply, s')
      \<and> execute rt cfg w friendInfo msg s
          = (Inr reply, s'\<lparr>activeTasks := activeTasks s' - {w}\<rparr>)"
    by blast
next
  assume "w \<notin> activeTasks s"
  then show "w \<notin> activeTasks (snd (execute rt cfg w friendInfo msg s))"
    by (simp add: execute_def split: prod.splits)
next
  assume "\<forall>s'. w \<in> activeTasks s'
      \<longrightarrow> meanwhile rt s' = others s' \<and> w \<in> activeTasks (others s')"
  then have "alike_while w (meanwhile rt) others"
    by (simp add: alike_while_def)
  then have "same_while w
      (tryCatch (execute_try rt cfg w friendInfo msg) (\<lambda>error. return txt_execute_error))
      (tryCatch (execute_try (rt\<lparr>meanwhile := others\<rparr>) cfg w friendInfo msg)
         (\<lambda>error. return txt_execute_error))"
    by (intro same_tryCatch same_execute_try same_return)
  then have "tryCatch (execute_try rt cfg w friendInfo msg) (\<lambda>error. return txt_execute_error)
        (s\<lparr>activeTasks := insert w (activeTasks s)\<rparr>)
      = tryCatch (execute_try (rt\<lparr>meanwhile := others\<rparr>) cfg w friendInfo msg)
          (\<lambda>error. return txt_execute_error) (s\<lparr>activeTasks := insert w (activeTasks s)\<rparr>)"
    by (simp add: same_while_def)
  then show "execute rt cfg w friendInfo msg s
      = execute (rt\<lparr>meanwhile := others\<rparr>) cfg w friendInfo msg s"
    by (simp add: execute_def)
next
  assume quiet: "\<forall>s'. activeTasks (meanwhile rt s') = activeTasks s'"
  let ?s1 = "s\<lparr>activeTasks := insert w (activeTasks s)\<rparr>"
  let ?m = "tryCatch (execute_try rt cfg w friendInfo msg) (\<lambda>error. return txt_execute_error)"
  show "activeTasks (snd (execute rt cfg w friendInfo msg s)) = activeTasks s"
  proof (cases "w \<in> activeTasks s")
    case True
    then show ?thesis
      by (simp add: execute_def)
  next
    case False
    from quiet have "keeps_tasks (execute_try rt cfg w friendInfo msg)"
      by (intro keeps_execute_try) simp
    then have "keeps_tasks ?m"
      by (intro keeps_tryCatch keeps_return)
    then have kept: "activeTasks (snd (?m ?s1)) = activeTasks ?s1"
      unfolding keeps_tasks_def by (rule spec)
    obtain r s' where run: "?m ?s1 = (r, s')"
      by (cases "?m ?s1")
    with kept have s': "activeTasks s' = insert w (activeTasks s)"
      by simp
    from False run
    have "execute rt cfg w friendInfo msg s = (r, s'\<lparr>activeTasks := activeTasks s' - {w}\<rparr>)"
      by (simp add: execute_def)
    with s' False show ?thesis
      by simp
  qed
qed

text \<open>
  The guard at work. On the host whose engine is down, with Alice's message in
  flight, a second one gets the busy reply and changes nothing; with nothing in
  flight, \<open>docker create\<close> throws inside the \<open>try\<close> block, and Alice's wxid is not
  left in the map, which is empty as before. On the host whose engine is up and
  on which a second message of Alice arrives whenever a process is pending,
  \<open>execute\<close> does for the first message what it does when no second one arrives.
\<close>

theorem execute_guard_witness:
  "js ''u1'' \<in> activeTasks state_alice_busy
   \<and> execute engine_down (loadConfig empty_yaml) (js ''u1'') (Some alice_row) (js ''hello'')
         state_alice_busy
       = (Inr txt_busy, state_alice_busy)
   \<and> js ''u1'' \<notin> activeTasks state_alice
   \<and> js ''u1'' \<notin> activeTasks
         (snd (execute engine_down (loadConfig empty_yaml) (js ''u1'') (Some alice_row)
                 (js ''hello'') state_alice))
   \<and> activeTasks
         (snd (execute engine_down (loadConfig empty_yaml) (js ''u1'') (Some alice_row)
                 (js ''hello'') state_alice)) = {}
   \<and> execute (second_message (engine_up (js ''hi''))) (loadConfig empty_yaml) (js ''u1'')
         (Some alice_row) (js ''hello'') state_alice
       = execute (engine_up (js ''hi'')) (loadConfig empty_yaml) (js ''u1'')
           (Some alice_row) (js ''hello'') state_alice"
proof -
  have busy: "js ''u1'' \<in> activeTasks state_alice_busy"
    by (simp add: state_alice_busy_def)
  have free: "js ''u1'' \<notin> activeTasks state_alice"
    by (simp add: state_alice_def)
  have quiet: "\<forall>s'. activeTasks (meanwhile engine_down s') = activeTasks s'"
    by (simp add: engine_down_def)
  have refused: "\<forall>s'. js ''u1'' \<in> activeTasks s' \<longrightarrow>
      meanwhile (second_message (engine_up (js ''hi''))) s' = (\<lambda>s. s) s'
      \<and> js ''u1'' \<in> activeTasks ((\<lambda>s. s) s')"
    by (simp add: second_message_def execute_def)
  have alone: "(second_message (engine_up (js ''hi'')))\<lparr>meanwhile := (\<lambda>s. s)\<rparr>
      = engine_up (js ''hi'')"
    by (simp add: second_message_def engine_up_def engine_down_def)
  from busy
    execute_guard [where w = "js ''u1''" and s = state_alice_busy and rt = engine_down
      and cfg = "loadConfig empty_yaml" and friendInfo = "Some alice_row"
      and msg = "js ''hello''"]
  have first: "execute engine_down (loadConfig empty_yaml) (js ''u1'') (Some alice_row)
      (js ''hello'') state_alice_busy = (Inr txt_busy, state_alice_busy)"
    by blast
  from free
    execute_guard [where w = "js ''u1''" and s = state_alice and rt = engine_down
      and cfg = "loadConfig empty_yaml" and friendInfo = "Some alice_row"
      and msg = "js ''hello''"]
  have second: "js ''u1'' \<notin> activeTasks
      (snd (execute engine_down (loadConfig empty_yaml) (js ''u1'') (Some alice_row)
              (js ''hello'') state_alice))"
    by blast
  from quiet
    execute_guard [where w = "js ''u1''" and s = state_alice and rt = engine_down
      and cfg = "loadConfig empty_yaml" and friendInfo = "Some alice_row"
      and msg = "js ''hello''"]
  have "activeTasks
      (snd (execute engine_down (loadConfig empty_yaml) (js ''u1'') (Some alice_row)
              (js ''hello'') state_alice)) = activeTasks state_alice"
    by blast
  then have third: "activeTasks
      (snd (execute engine_down (loadConfig empty_yaml) (js ''u1'') (Some alice_row)
              (js ''hello'') state_alice)) = {}"
    by (simp add: state_alice_def)
  from refused
    execute_guard [where w = "js ''u1''" and s = state_alice
      and rt = "second_message (engine_up (js ''hi''))"
      and cfg = "loadConfig empty_yaml" and friendInfo = "Some alice_row"
      and msg = "js ''hello''" and others = "\<lambda>s. s"]
  have fourth: "execute (second_message (engine_up (js ''hi''))) (loadConfig empty_yaml)
         (js ''u1'') (Some alice_row) (js ''hello'') state_alice
       = execute (engine_up (js ''hi'')) (loadConfig empty_yaml) (js ''u1'')
           (Some alice_row) (js ''hello'') state_alice"
    unfolding alone by blast
  from busy free first second third fourth show ?thesis
    by blast
qed

text \<open>
  The second message on its own: it finds the wxid in the map and changes nothing,
  and the run time it arrives on is otherwise the one given.
\<close>

lemma second_message_busy:
  "js ''u1'' \<in> activeTasks s \<Longrightarrow> meanwhile (second_message rt) s = s"
  by (simp add: second_message_def execute_def)

lemma second_message_host:
  "execFile_docker (second_message rt) = execFile_docker rt"
  "spawn_docker (second_message rt) = spawn_docker rt"
  "current_timestamp (second_message rt) = current_timestamp rt"
  "uuidv4 (second_message rt) = uuidv4 rt"
  "date_now (second_message rt) = date_now rt"
  "date_getTime (second_message rt) = date_getTime rt"
  "session_match (second_message rt) = session_match rt"
  "process_env (second_message rt) = process_env rt"
  by (simp_all add: second_message_def)

text \<open>
  The two runs spelled out. On the host whose engine is down the reply is the
  error text. On the host whose engine is up, with a second message of Alice
  arriving at each of the three calls to the host (the two \<open>docker inspect\<close> and
  the Claude CLI), the first message is answered with what the CLI printed, and
  the host has been asked for three processes: the second message added none.
\<close>

lemma execute_replies_when_create_throws:
  "fst (execute engine_down (loadConfig empty_yaml) (js ''u1'') (Some alice_row) (js ''hello'')
          state_alice)
   = Inr txt_execute_error"
  by (simp add: execute_def execute_try_def tryCatch_def andThen_def return_def
      ensureContainer_def containerExists_def createContainer_def userDataDir_def mkdir_def
      execFileAsync_def engine_down_def state_alice_def alice_row_def Let_def)

lemma second_message_is_refused:
  "fst (execute (second_message (engine_up (js ''hi''))) (loadConfig empty_yaml) (js ''u1'')
          (Some alice_row) (js ''hello'') state_alice)
   = Inr (js ''hi'')
   \<and> length (trace (snd (execute (second_message (engine_up (js ''hi'')))
                             (loadConfig empty_yaml) (js ''u1'') (Some alice_row)
                             (js ''hello'') state_alice)))
     = 3"
  by (simp add: second_message_busy second_message_host execute_def execute_try_def
      tryCatch_def andThen_def
      return_def ensureContainer_def containerExists_def isRunning_def execFileAsync_def
      engine_up_def engine_down_def state_alice_def Let_def getOrCreateSession_def
      createSession_def get_store_def sessionsDB_getActive_def db_alice_def
      fresh_uuid_def now_text_def run_store_def sessionsDB_create_def friendsDB_get_def
      alice_row_def modify_store_def sessionsDB_touch_def execClaude_def
      or_string_def truthy_def truncate_response_def maxLen_response_def
      substring_prefix trim_def js_whitespace_def)

section \<open>Exceptions that leave the router\<close>

text \<open>
  What holds of \<open>handleMessage\<close>. Once the security filter has let the message
  pass, the dispatch to Claude always ends with a reply: the \<open>try\<close> around
  \<open>execute\<close> contains every error. And where \<open>handleMessage\<close> returns at all after
  the ingress, it returns \<open>null\<close> exactly for the tier \<open>blocked\<close> and for a missing
  permission with \<open>notify_unauthorized\<close> unset.
\<close>

lemma dispatch_contains_errors:
  assumes "securityCheck rt cfg msg perm = Inr verdict"
  shows "\<exists>r s'. dispatch rt cfg w displayName perm msg s = (Inr (Some r), s')"
  using assms
  by (cases verdict)
     (auto simp: dispatch_def return_def andThen_def get_store_def tryCatch_def
        split: prod.splits sum.splits)

lemma dispatch_not_null: "fst (dispatch rt cfg w displayName perm msg s) \<noteq> Inr None"
  by (auto simp: dispatch_def return_def throw_def andThen_def get_store_def tryCatch_def
      split: prod.splits sum.splits option.splits)

lemma respond_not_null: "fst (respond rt cfg w displayName perm msg s) \<noteq> Inr None"
proof (cases "startsWith msg (js ''/'')")
  case False
  then show ?thesis
    using dispatch_not_null [of rt cfg w displayName perm msg s] by (simp add: respond_def)
next
  case True
  obtain r s' where hc: "handleCommand rt cfg w perm msg s = (r, s')"
    by (cases "handleCommand rt cfg w perm msg s")
  show ?thesis
  proof (cases r)
    case (Inl e)
    with True hc show ?thesis by (simp add: respond_def andThen_def)
  next
    case (Inr response)
    show ?thesis
    proof (cases response)
      case None
      with True hc Inr show ?thesis
        using dispatch_not_null [of rt cfg w displayName perm msg s']
        by (simp add: respond_def andThen_def)
    next
      case (Some reply)
      with True hc Inr show ?thesis
        by (auto simp: respond_def andThen_def now_text_def run_store_def return_def
            split: sum.splits)
    qed
  qed
qed

lemma admit_null_iff:
  "fst (admit rt cfg c msg s) = Inr None \<longleftrightarrow>
     getEffectivePermission cfg (store s) (contact_wxid c) = js ''blocked''
     \<or> (getEffectivePermission cfg (store s) (contact_wxid c) = [] \<and> \<not> notify_unauthorized cfg)"
proof -
  let ?perm = "getEffectivePermission cfg (store s) (contact_wxid c)"
  consider "?perm = js ''blocked''" | "?perm = []" | "?perm \<noteq> js ''blocked''" "?perm \<noteq> []"
    by blast
  then show ?thesis
  proof cases
    case 1
    then show ?thesis by (simp add: admit_def andThen_def get_store_def return_def)
  next
    case 2
    then show ?thesis by (simp add: admit_def andThen_def get_store_def return_def)
  next
    case 3
    obtain r s' where rc: "checkRate rt cfg (contact_wxid c) s = (Inr r, s')"
      by (cases "checkRate rt cfg (contact_wxid c) s")
         (auto simp: checkRate_def Let_def split: prod.splits)
    show ?thesis
    proof (cases r)
      case (Inl reason)
      with 3 rc show ?thesis
        by (simp add: admit_def andThen_def get_store_def return_def Let_def)
    next
      case (Inr u)
      with 3 rc show ?thesis
        using respond_not_null [of rt cfg "contact_wxid c" "displayName_of_contact c" ?perm msg s']
        by (simp add: admit_def andThen_def get_store_def Let_def)
    qed
  qed
qed

text \<open>
  C9 (the code departs from the claim). The administrator \<open>admin0\<close> sends
  \<open>/rebuild Alice\<close> while the engine cannot be reached. The message is admitted
  (tier \<open>admin\<close>, first message of the minute), \<open>/rebuild\<close> is a command of that
  tier, and Alice is found. \<open>rebuild\<close> survives the failing \<open>docker rm\<close> but not
  the failing \<open>docker create\<close>: its exception passes through \<open>cmdRebuild\<close>,
  \<open>handleCommand\<close> and \<open>handleMessage\<close>, none of which catches it. The result is
  an exception, not a reply and not \<open>null\<close>, although the tier is neither
  \<open>blocked\<close> nor missing.
\<close>

theorem command_exception_leaves_handleMessage:
  "fst (handleMessage engine_down config_admin0 boss (js ''/rebuild Alice'') state_alice)
     = Inl (ProcessError (js ''Cannot connect to the Docker daemon''))
   \<and> getEffectivePermission config_admin0 (store state_alice) (contact_wxid boss)
       = js ''admin''"
  by (simp add: handleMessage_def ingress_def admit_def displayName_of_contact_def boss_def
      state_alice_def engine_down_def config_admin0_def
      loadConfig_def empty_yaml_def or_default_def or_int_def nullish_bool_def or_string_def
      andThen_def now_text_def run_store_def auditDB_log_def ensureFriendRegistered_def
      friendsDB_get_def db_alice_def alice_row_def friendsDB_upsert_def valid_permission_def
      get_store_def getEffectivePermission_def checkRate_def
      rateLimitDB_checkAndIncrement_def minuteRow_def dayCount_def rate_upsert_def
      respond_def startsWith_def handleCommand_def trim_def js_whitespace_def part_def
      join_def commands_def ascii_lower_def permLevel_def js_less_def run_handler_def
      cmdRebuild_def friendsDB_findByNickname_def like_column_def percent_def
      underscore_def executor_rebuildContainer_def modify_store_def
      sessionsDB_clearUser_def delete_task_def rebuild_def destroyContainer_def
      tryCatch_def execFileAsync_def return_def ensureContainer_def containerExists_def
      createContainer_def userDataDir_def mkdir_def dataDir_def oauth_only_def
      print_undefined_def containerName_def Let_def)

end
